theory Spec2Isabelle
  imports Main
begin

section \<open>JavaScript strings and paths\<close>

text \<open>
  A JavaScript string is modelled as a \<^typ>\<open>string\<close>: a list of code units below 256
  (ASCII and Latin-1), which covers every character the sources mention.  A falsy string
  (\<open>undefined\<close> or the empty string) is the empty list.
\<close>

definition lower_char :: "char \<Rightarrow> char" where
  "lower_char c =
     (let n = (of_char c :: nat)
      in if (65 \<le> n \<and> n \<le> 90) \<or> (192 \<le> n \<and> n \<le> 222 \<and> n \<noteq> 215)
         then char_of (n + 32) else c)"

definition toLowerCase :: "string \<Rightarrow> string" where
  "toLowerCase s = map lower_char s"

text \<open>\<open>a || b\<close> on strings.\<close>

definition or_else :: "string \<Rightarrow> string \<Rightarrow> string" where
  "or_else a b = (if a = [] then b else a)"

text \<open>\<open>s.split(sep)\<close> for a one-character separator: never an empty array.\<close>

fun split :: "char \<Rightarrow> string \<Rightarrow> string list" where
  "split sep [] = [[]]"
| "split sep (c # cs) =
     (if c = sep then [] # split sep cs
      else (case split sep cs of [] \<Rightarrow> [[c]] | w # ws \<Rightarrow> (c # w) # ws))"

text \<open>\<open>xs.pop()\<close> read as a string: \<open>undefined\<close> (falsy) on the empty array.\<close>

definition pop :: "string list \<Rightarrow> string" where
  "pop xs = (case rev xs of [] \<Rightarrow> [] | x # _ \<Rightarrow> x)"

text \<open>\<open>xs[0]\<close> read as a string.\<close>

definition first :: "string list \<Rightarrow> string" where
  "first xs = (case xs of [] \<Rightarrow> [] | x # _ \<Rightarrow> x)"

text \<open>\<open>s.lastIndexOf(c)\<close>: the index of the last occurrence, or \<open>-1\<close>.\<close>

definition lastIndexOf :: "string \<Rightarrow> char \<Rightarrow> int" where
  "lastIndexOf s c =
     (if c \<in> set s then int (length s) - 1 - int (length (takeWhile (\<lambda>x. x \<noteq> c) (rev s)))
      else - 1)"

text \<open>\<open>s.substring(0, k)\<close>: a negative end is read as 0.\<close>

definition substring0 :: "string \<Rightarrow> int \<Rightarrow> string" where
  "substring0 s k = take (nat k) s"

text \<open>\<open>s.substring(k)\<close> for a natural number \<open>k\<close>.\<close>

definition substring_from :: "string \<Rightarrow> nat \<Rightarrow> string" where
  "substring_from s k = drop k s"

text \<open>
  Node's \<open>path.basename(p)\<close> on POSIX: trailing slashes are dropped, then the part after
  the last slash is returned.
\<close>

definition path_basename :: "string \<Rightarrow> string" where
  "path_basename p =
     rev (takeWhile (\<lambda>c. c \<noteq> CHR ''/'') (dropWhile (\<lambda>c. c = CHR ''/'') (rev p)))"

text \<open>
  Node's \<open>path.extname\<close> on a name without slashes: from the last dot to the end; empty
  when there is no dot, when the only dot is the first character, and for \<open>..\<close>.
\<close>

definition path_extname :: "string \<Rightarrow> string" where
  "path_extname f =
     (let i = lastIndexOf f CHR ''.''
      in if i \<le> 0 \<or> f = ''..'' then [] else drop (nat i) f)"

text \<open>Node's \<open>path.basename(f, ext)\<close> on a name without slashes.\<close>

definition path_basename_ext :: "string \<Rightarrow> string \<Rightarrow> string" where
  "path_basename_ext f ext =
     (if ext \<noteq> [] \<and> length ext \<le> length f
      then (if ext = f then []
            else if drop (length f - length ext) f = ext then take (length f - length ext) f
            else f)
      else f)"

section \<open>The conversion service: data\<close>

datatype conversion_status = pending | processing | completed | failed

text \<open>A row of the table \<open>music_sheets\<close>, with the columns the conversion service touches.\<close>

record music_sheet =
  id :: string
  file_url :: string
  file_type :: string
  conversion_status :: "conversion_status option"
  conversion_error :: "string option"
  mei_url :: "string option"
  mei_public_url :: "string option"

text \<open>
  The hosted backend: the table \<open>music_sheets\<close> (in the order a query returns its rows) and
  the bucket \<open>music-sheets\<close> of the object store.
\<close>

record world =
  sheets :: "music_sheet list"
  bucket :: "string \<rightharpoonup> string"

text \<open>
  A thrown JavaScript value, or the \<open>error\<close> object a backend call answers with: an
  instance of \<open>Error\<close>, whose \<open>message\<close> is a string, or any other value, whose property
  \<open>message\<close> may be \<open>undefined\<close>.
\<close>

datatype thrown = Error_instance string | Other_value "string option"

text \<open>\<open>error.message\<close>, where \<open>None\<close> stands for \<open>undefined\<close>.\<close>

primrec message :: "thrown \<Rightarrow> string option" where
  "message (Error_instance m) = Some m"
| "message (Other_value m) = m"

text \<open>
  A possibly undefined string inside a template literal or a concatenation:
  \<open>undefined\<close> is written out as the word.
\<close>

definition interpolate :: "string option \<Rightarrow> string" where
  "interpolate x = (case x of None \<Rightarrow> ''undefined'' | Some m \<Rightarrow> m)"

text \<open>\<open>x || d\<close> for a possibly undefined string \<open>x\<close>.\<close>

definition or_default :: "string option \<Rightarrow> string \<Rightarrow> string" where
  "or_default x d = (case x of None \<Rightarrow> d | Some m \<Rightarrow> if m = [] then d else m)"

text \<open>\<open>error instanceof Error ? error.message : "Erro desconhecido"\<close>\<close>

definition error_message :: "thrown \<Rightarrow> string" where
  "error_message error =
     (case error of Error_instance m \<Rightarrow> m | Other_value m \<Rightarrow> ''Erro desconhecido'')"

text \<open>
  What the outside world answers during one run of \<open>processFile\<close>: the error (if any) of
  each call to the backend in the order of the code, the downloaded bytes, failures of the
  local temporary files, and the clock.  A backend call that answers with an error
  changes nothing.
\<close>

record io_env =
  status_update_error :: "thrown option"
  mkdir_error :: "thrown option"
  download_result :: "thrown + string"
  local_write_error :: "thrown option"
  upload_error :: "thrown option"
  public_url :: "string option"
  final_update_error :: "thrown option"
  cleanup_error :: "thrown option"
  failed_update_error :: "thrown option"
  handler_failed_update_error :: "thrown option"
  now_iso :: string

text \<open>\<open>supabase.from('music_sheets').update(u).eq('id', fileId)\<close> when it succeeds.\<close>

definition update_eq_id :: "(music_sheet \<Rightarrow> music_sheet) \<Rightarrow> string \<Rightarrow> world \<Rightarrow> world" where
  "update_eq_id u fileId w =
     w\<lparr>sheets := map (\<lambda>r. if id r = fileId then u r else r) (sheets w)\<rparr>"

definition set_processing :: "music_sheet \<Rightarrow> music_sheet" where
  "set_processing r = r\<lparr>conversion_status := Some processing\<rparr>"

definition set_failed :: "string \<Rightarrow> music_sheet \<Rightarrow> music_sheet" where
  "set_failed msg r = r\<lparr>conversion_status := Some failed, conversion_error := Some msg\<rparr>"

definition set_completed :: "string \<Rightarrow> string option \<Rightarrow> music_sheet \<Rightarrow> music_sheet" where
  "set_completed path url r =
     r\<lparr>conversion_status := Some completed, mei_url := Some path, mei_public_url := url\<rparr>"

text \<open>
  The update to \<open>failed\<close> of a catch block; its outcome is not inspected by the code, so
  an error \<open>err\<close> of the backend only means that the row stays as it was.
\<close>

definition record_failure :: "thrown option \<Rightarrow> string \<Rightarrow> string \<Rightarrow> world \<Rightarrow> world" where
  "record_failure err msg fileId w =
     (case err of
        Some _ \<Rightarrow> w
      | None \<Rightarrow> update_eq_id (set_failed msg) fileId w)"

section \<open>The MEI template\<close>

text \<open>\<open>new Date().toISOString().substring(0, 10)\<close>\<close>

definition isodate :: "io_env \<Rightarrow> string" where
  "isodate env = substring0 (now_iso env) 10"

definition mei_head :: string where
  "mei_head =
 ''<?xml version=\"1.0\" encoding=\"UTF-8\"?>\<newline>'' @
 ''<?xml-model href=\"https://music-encoding.org/schema/4.0.0/mei-all.rng\" type=\"application/xml\" schematypens=\"http://relaxng.org/ns/structure/1.0\"?>\<newline>'' @
 ''<mei xmlns=\"http://www.music-encoding.org/ns/mei\" meiversion=\"4.0.0\">\<newline>'' @
 ''  <meiHead>\<newline>'' @
 ''    <fileDesc>\<newline>'' @
 ''      <titleStmt>\<newline>'' @
 ''        <title>Arquivo convertido de ''"

definition mei_middle :: string where
  "mei_middle =
 ''</title>\<newline>'' @
 ''      </titleStmt>\<newline>'' @
 ''      <pubStmt>\<newline>'' @
 ''        <date isodate=\"''"

definition mei_tail :: string where
  "mei_tail =
 ''\"/>\<newline>'' @
 ''      </pubStmt>\<newline>'' @
 ''    </fileDesc>\<newline>'' @
 ''  </meiHead>\<newline>'' @
 ''  <music>\<newline>'' @
 ''    <body>\<newline>'' @
 ''      <mdiv>\<newline>'' @
 ''        <score>\<newline>'' @
 ''          <scoreDef>\<newline>'' @
 ''            <staffGrp>\<newline>'' @
 ''              <staffDef n=\"1\" lines=\"5\" clef.shape=\"G\" clef.line=\"2\"/>\<newline>'' @
 ''            </staffGrp>\<newline>'' @
 ''          </scoreDef>\<newline>'' @
 ''          <section>\<newline>'' @
 ''            <measure n=\"1\">\<newline>'' @
 ''              <staff n=\"1\">\<newline>'' @
 ''                <layer n=\"1\">\<newline>'' @
 ''                  <note pname=\"c\" oct=\"4\" dur=\"1\"/>\<newline>'' @
 ''                </layer>\<newline>'' @
 ''              </staff>\<newline>'' @
 ''            </measure>\<newline>'' @
 ''          </section>\<newline>'' @
 ''        </score>\<newline>'' @
 ''      </mdiv>\<newline>'' @
 ''    </body>\<newline>'' @
 ''  </music>\<newline>'' @
 ''</mei>''"

text \<open>The template literal \<open>meiTemplate\<close>, the same text in both services.\<close>

definition meiTemplate :: "string \<Rightarrow> string \<Rightarrow> string" where
  "meiTemplate fileName date = mei_head @ fileName @ mei_middle @ date @ mei_tail"

section \<open>The Express service (\<open>server.js\<close>, first part)\<close>

type_synonym conversion_result = "string \<times> string option"

text \<open>
  The steps both services share, in the same words: the upload of the MEI file to the
  bucket, \<open>getPublicUrl\<close>, and the update of the row to \<open>completed\<close>.
\<close>

definition upload_and_complete ::
  "io_env \<Rightarrow> string \<Rightarrow> string \<Rightarrow> string \<Rightarrow> world \<Rightarrow> (thrown + conversion_result) \<times> world" where
  "upload_and_complete env fileId meiStoragePath meiContent w =
     (case upload_error env of
        Some uploadError \<Rightarrow> (Inl uploadError, w)
      | None \<Rightarrow>
         (let w1 = w\<lparr>bucket := (bucket w)(meiStoragePath \<mapsto> meiContent)\<rparr>;
              meiPublicUrl = public_url env
          in (case final_update_error env of
                Some finalUpdateError \<Rightarrow> (Inl finalUpdateError, w1)
              | None \<Rightarrow>
                 (Inr (meiStoragePath, meiPublicUrl),
                  update_eq_id (set_completed meiStoragePath meiPublicUrl) fileId w1))))"

definition express_fileName :: "string \<Rightarrow> string" where
  "express_fileName filePath = path_basename filePath"

definition express_fileExt :: "string \<Rightarrow> string" where
  "express_fileExt filePath =
     substring_from (toLowerCase (path_extname (express_fileName filePath))) 1"

definition express_meiStoragePath :: "string \<Rightarrow> string" where
  "express_meiStoragePath filePath =
     (let fileName = express_fileName filePath;
          meiFileName = path_basename_ext fileName (path_extname fileName) @ ''.mei'';
          userId = first (split CHR ''/'' filePath)
      in userId @ ''/'' @ meiFileName)"

text \<open>
  The body of the \<open>try\<close> block of \<open>processFile\<close>: the value returned or thrown, and the
  backend as the block leaves it.
\<close>

definition express_try ::
  "io_env \<Rightarrow> string \<Rightarrow> string \<Rightarrow> world \<Rightarrow> (thrown + conversion_result) \<times> world" where
  "express_try env fileId filePath w =
     (case mkdir_error env of
        Some e \<Rightarrow> (Inl e, w)
      | None \<Rightarrow>
     (case download_result env of
        Inl downloadError \<Rightarrow>
          (Inl (Error_instance
                  (''Erro ao baixar arquivo: '' @ interpolate (message downloadError))), w)
      | Inr fileData \<Rightarrow>
     (case local_write_error env of
        Some e \<Rightarrow> (Inl e, w)
      | None \<Rightarrow>
     (if express_fileExt filePath \<noteq> ''pdf''
         \<and> express_fileExt filePath \<notin> set [''xml'', ''musicxml'', ''mxl'']
      then (Inl (Error_instance
              (''Formato n'' @ [CHR 0xE3] @ ''o suportado: '' @ express_fileExt filePath)), w)
      else
     (case upload_and_complete env fileId (express_meiStoragePath filePath)
             (meiTemplate (express_fileName filePath) (isodate env)) w of
        (Inl e, w') \<Rightarrow> (Inl e, w')
      | (Inr result, w') \<Rightarrow>
          (case cleanup_error env of
             Some e \<Rightarrow> (Inl e, w')
           | None \<Rightarrow> (Inr result, w')))))))"

text \<open>\<open>processFile\<close> of the Express service: the \<open>try\<close> block and its \<open>catch\<close>.\<close>

definition processFile_express ::
  "io_env \<Rightarrow> string \<Rightarrow> string \<Rightarrow> string \<Rightarrow> world \<Rightarrow> (thrown + conversion_result) \<times> world" where
  "processFile_express env fileId filePath fileType w =
     (case express_try env fileId filePath w of
        (Inl error, w') \<Rightarrow>
          (Inl error,
           record_failure (failed_update_error env)
             (or_default (message error) ''Erro desconhecido'') fileId w')
      | (Inr result, w') \<Rightarrow> (Inr result, w'))"

datatype json = JNull | JBool bool | JString string | JArray "json list"
  | JObject "(string \<times> json) list"

text \<open>The value of a key of a JSON object, if it has that key.\<close>

definition json_field :: "string \<Rightarrow> json \<Rightarrow> json option" where
  "json_field k j = (case j of JObject kvs \<Rightarrow> map_of kvs k | _ \<Rightarrow> None)"

record response =
  http_status :: nat
  body :: json

record convert_request =
  req_fileId :: string
  req_filePath :: string
  req_fileType :: string

text \<open>
  \<open>app.post('/convert')\<close> up to its answer: the response and the backend at the moment the
  response is sent (the conversion runs in the background).
\<close>

definition post_convert :: "io_env \<Rightarrow> convert_request \<Rightarrow> world \<Rightarrow> response \<times> world" where
  "post_convert env req w =
     (if req_fileId req = [] \<or> req_filePath req = []
      then (\<lparr>http_status = 400,
             body = JObject [(''error'', JString (''Dados obrigat'' @ [CHR 0xF3] @ ''rios ausentes''))]\<rparr>, w)
      else (case status_update_error env of
              Some updateError \<Rightarrow>
                (\<lparr>http_status = 500,
                  body = JObject [(''success'', JBool False),
                    (''error'', JString (or_default (message updateError)
                       (''Erro desconhecido ao iniciar a convers'' @ [CHR 0xE3] @ ''o'')))]\<rparr>, w)
            | None \<Rightarrow>
                (\<lparr>http_status = 200,
                  body = JObject [(''success'', JBool True),
                    (''message'', JString (''Processo de convers'' @ [CHR 0xE3] @ ''o iniciado com sucesso'')),
                    (''fileId'', JString (req_fileId req)),
                    (''status'', JString ''processing'')]\<rparr>,
                 update_eq_id set_processing (req_fileId req) w)))"

text \<open>
  The backend once the background conversion started by \<open>app.post('/convert')\<close> has
  settled, with the \<open>.catch\<close> of the handler.
\<close>

definition post_convert_settled :: "io_env \<Rightarrow> convert_request \<Rightarrow> world \<Rightarrow> world" where
  "post_convert_settled env req w =
     (if req_fileId req = [] \<or> req_filePath req = [] then w
      else (case status_update_error env of
              Some updateError \<Rightarrow> w
            | None \<Rightarrow>
               (case processFile_express env (req_fileId req) (req_filePath req) (req_fileType req)
                       (update_eq_id set_processing (req_fileId req) w) of
                  (Inr result, w') \<Rightarrow> w'
                | (Inl error, w') \<Rightarrow>
                    record_failure (handler_failed_update_error env)
                      (or_default (message error)
                         (''Erro desconhecido durante a convers'' @ [CHR 0xE3] @ ''o''))
                      (req_fileId req) w')))"

section \<open>The edge function (\<open>server.js\<close>, second part)\<close>

definition edge_fileName :: "string \<Rightarrow> string" where
  "edge_fileName filePath = or_else (pop (split CHR ''/'' filePath)) ''file''"

definition edge_fileExt :: "string \<Rightarrow> string" where
  "edge_fileExt filePath =
     toLowerCase (or_else (pop (split CHR ''.'' (edge_fileName filePath))) [])"

definition edge_meiFileName :: "string \<Rightarrow> string" where
  "edge_meiFileName filePath =
     (let fileName = edge_fileName filePath;
          fileNameWithoutExt = substring0 fileName (lastIndexOf fileName CHR ''.'');
          userId = substring0 filePath (lastIndexOf filePath CHR ''/'')
      in userId @ ''/'' @ fileNameWithoutExt @ ''.mei'')"

text \<open>The body of the \<open>try\<close> block of the edge function's \<open>processFile\<close>.\<close>

definition edge_try ::
  "io_env \<Rightarrow> string \<Rightarrow> string \<Rightarrow> world \<Rightarrow> (thrown + conversion_result) \<times> world" where
  "edge_try env fileId filePath w =
     (case download_result env of
        Inl downloadError \<Rightarrow>
          (Inl (Error_instance
                  (''Erro ao baixar arquivo: '' @ interpolate (message downloadError))), w)
      | Inr fileData \<Rightarrow>
     (case local_write_error env of
        Some e \<Rightarrow> (Inl e, w)
      | None \<Rightarrow>
     (if edge_fileExt filePath \<noteq> ''pdf''
         \<and> edge_fileExt filePath \<notin> set [''xml'', ''musicxml'', ''mxl'']
         \<and> edge_fileExt filePath \<noteq> ''svg''
      then (Inl (Error_instance
              (''Tipo de arquivo n'' @ [CHR 0xE3] @ ''o suportado: '' @ edge_fileExt filePath)), w)
      else upload_and_complete env fileId (edge_meiFileName filePath)
             (meiTemplate (edge_fileName filePath) (isodate env)) w)))"

text \<open>
  \<open>processFile\<close> of the edge function.  The removal of the temporary directory sits in a
  \<open>try\<close>/\<open>catch\<close> of its own that only logs, so \<open>cleanup_error\<close> is not read.
\<close>

definition processFile_edge ::
  "io_env \<Rightarrow> string \<Rightarrow> string \<Rightarrow> string \<Rightarrow> world \<Rightarrow> (thrown + conversion_result) \<times> world" where
  "processFile_edge env fileId filePath fileType w =
     (case status_update_error env of
        Some updateError \<Rightarrow> (Inl updateError, w)
      | None \<Rightarrow>
         (case edge_try env fileId filePath (update_eq_id set_processing fileId w) of
            (Inl error, w') \<Rightarrow>
              (Inl error,
               record_failure (failed_update_error env)
                 (error_message error) fileId w')
          | (Inr result, w') \<Rightarrow> (Inr result, w')))"

text \<open>\<open>s.startsWith(p)\<close> and \<open>s.includes(p)\<close>\<close>

fun startsWith :: "string \<Rightarrow> string \<Rightarrow> bool" where
  "startsWith s [] = True"
| "startsWith [] (p # ps) = False"
| "startsWith (c # cs) (p # ps) = (c = p \<and> startsWith cs ps)"

fun js_includes :: "string \<Rightarrow> string \<Rightarrow> bool" where
  "js_includes [] p = (p = [])"
| "js_includes (c # cs) p = (startsWith (c # cs) p \<or> js_includes cs p)"

record edge_request =
  req_method :: string
  req_pathname :: string
  req_json :: convert_request

text \<open>\<open>Deno.env.get(...) || ""\<close> for the two variables the function reads.\<close>

record edge_config =
  supabaseUrl :: string
  supabaseServiceKey :: string

text \<open>
  What the outside world answers during one request to the edge function: the error (if
  any) of the query for pending files, and the answers during the conversion of each file.
\<close>

record edge_env =
  query_error :: "thrown option"
  file_env :: "string \<Rightarrow> io_env"

text \<open>
  \<open>.from("music_sheets").select(...).eq("conversion_status", "pending").limit(10)\<close>
\<close>

definition pending_query :: "world \<Rightarrow> music_sheet list" where
  "pending_query w = take 10 (filter (\<lambda>r. conversion_status r = Some pending) (sheets w))"

definition result_json :: "conversion_result \<Rightarrow> json" where
  "result_json result =
     JObject [(''mei_url'', JString (fst result)),
              (''public_url'', case snd result of None \<Rightarrow> JNull | Some u \<Rightarrow> JString u)]"

definition success_entry :: "string \<Rightarrow> conversion_result \<Rightarrow> json" where
  "success_entry fileId result =
     JObject [(''fileId'', JString fileId), (''success'', JBool True),
              (''result'', result_json result)]"

definition failure_entry :: "string \<Rightarrow> thrown \<Rightarrow> json" where
  "failure_entry fileId error =
     JObject [(''fileId'', JString fileId), (''success'', JBool False),
              (''error'', JString (error_message error))]"

text \<open>The loop \<open>for (const file of pendingFiles)\<close> with its \<open>try\<close>/\<open>catch\<close> per file.\<close>

fun convert_all_loop ::
  "(string \<Rightarrow> io_env) \<Rightarrow> music_sheet list \<Rightarrow> json list \<Rightarrow> world \<Rightarrow> json list \<times> world" where
  "convert_all_loop envs [] results w = (results, w)"
| "convert_all_loop envs (file # files) results w =
     (case processFile_edge (envs (id file)) (id file) (file_url file) (file_type file) w of
        (Inr result, w') \<Rightarrow>
          convert_all_loop envs files (results @ [success_entry (id file) result]) w'
      | (Inl error, w') \<Rightarrow>
          convert_all_loop envs files (results @ [failure_entry (id file) error])
            (record_failure (handler_failed_update_error (envs (id file)))
               (error_message error) (id file) w'))"

definition no_pending_message :: string where
  "no_pending_message = ''Nenhum arquivo pendente para convers'' @ [CHR 0xE3] @ ''o''"

text \<open>The handler given to \<open>serve\<close>, on a request whose body (if read) parses as JSON.\<close>

definition serve :: "edge_config \<Rightarrow> edge_env \<Rightarrow> edge_request \<Rightarrow> world \<Rightarrow> response \<times> world" where
  "serve cfg env req w =
     (if req_method req \<noteq> ''POST''
      then (\<lparr>http_status = 405,
             body = JObject [(''error'', JString (''M'' @ [CHR 0xE9] @ ''todo n'' @ [CHR 0xE3]
                       @ ''o permitido''))]\<rparr>, w)
      else if supabaseUrl cfg = [] \<or> supabaseServiceKey cfg = []
      then (\<lparr>http_status = 500,
             body = JObject [(''success'', JBool False),
                      (''error'', JString (''Vari'' @ [CHR 0xE1] @ ''veis de ambiente do Supabase n''
                         @ [CHR 0xE3] @ ''o configuradas''))]\<rparr>, w)
      else if js_includes (req_pathname req) ''/convert-all''
      then (case query_error env of
              Some queryError \<Rightarrow>
                (\<lparr>http_status = 500,
                  body = JObject [(''success'', JBool False),
                           (''error'', JString (''Erro ao buscar arquivos pendentes: ''
                              @ interpolate (message queryError)))]\<rparr>, w)
            | None \<Rightarrow>
                (let pendingFiles = pending_query w
                 in if pendingFiles = []
                    then (\<lparr>http_status = 200,
                           body = JObject [(''message'', JString no_pending_message)]\<rparr>, w)
                    else (case convert_all_loop (file_env env) pendingFiles [] w of
                            (results, w') \<Rightarrow>
                              (\<lparr>http_status = 200,
                                body = JObject [(''message'', JString (''Processamento em lote conclu''
                                           @ [CHR 0xED] @ ''do'')),
                                         (''results'', JArray results)]\<rparr>, w'))))
      else (let fileId = req_fileId (req_json req);
                filePath = req_filePath (req_json req);
                fileType = req_fileType (req_json req)
            in if fileId = [] \<or> filePath = []
               then (\<lparr>http_status = 400,
                      body = JObject [(''error'', JString (''Dados obrigat'' @ [CHR 0xF3]
                                @ ''rios ausentes''))]\<rparr>, w)
               else (case processFile_edge (file_env env fileId) fileId filePath fileType w of
                       (Inr result, w') \<Rightarrow>
                         (\<lparr>http_status = 200,
                           body = JObject [(''success'', JBool True),
                                    (''message'', JString (''Convers'' @ [CHR 0xE3] @ ''o conclu''
                                       @ [CHR 0xED] @ ''da com sucesso'')),
                                    (''result'', result_json result)]\<rparr>, w')
                     | (Inl error, w') \<Rightarrow>
                         (\<lparr>http_status = 500,
                           body = JObject [(''success'', JBool False),
                                    (''error'', JString (error_message error))]\<rparr>, w'))))"

section \<open>Counting elements of a document\<close>

text \<open>
  The number of start tags \<open><name ...>\<close> in a text: what a parser that reads the text
  back counts as elements of that name.
\<close>

fun tag_here :: "string \<Rightarrow> string \<Rightarrow> bool" where
  "tag_here [] s = (case s of [] \<Rightarrow> False
                    | c # _ \<Rightarrow> c = CHR '' '' \<or> c = CHR ''>'' \<or> c = CHR ''/''
                               \<or> c = CHR ''\<newline>'' \<or> c = CHR 0x09 \<or> c = CHR 0x0D)"
| "tag_here (n # ns) [] = False"
| "tag_here (n # ns) (c # cs) = (n = c \<and> tag_here ns cs)"

fun count_elements :: "string \<Rightarrow> string \<Rightarrow> nat" where
  "count_elements name [] = 0"
| "count_elements name (c # cs) =
     (if c = CHR ''<'' \<and> tag_here name cs then 1 else 0) + count_elements name cs"

section \<open>Regular expressions of the upload page\<close>

text \<open>
  The eleven regular expressions of \<open>isMusicSheetOrTab\<close> use literals, character classes,
  \<open>\s\<close>, \<open>\b\<close>, grouping, alternation, \<open>?\<close>, \<open>+\<close> and \<open>{m,}\<close>, \<open>{m,n}\<close>; they are
  written as terms of the datatype \<open>regex\<close> and run by a matcher that follows every
  alternative, so that \<open>test\<close> is true exactly when some substring matches.
\<close>

definition upper_char :: "char \<Rightarrow> char" where
  "upper_char c =
     (let n = (of_char c :: nat)
      in if (97 \<le> n \<and> n \<le> 122) \<or> (224 \<le> n \<and> n \<le> 254 \<and> n \<noteq> 247)
         then char_of (n - 32) else c)"

text \<open>The characters \<open>\b\<close> counts as part of a word: \<open>[A-Za-z0-9_]\<close>.\<close>

definition is_word_char :: "char \<Rightarrow> bool" where
  "is_word_char c =
     (let n = (of_char c :: nat)
      in (48 \<le> n \<and> n \<le> 57) \<or> (65 \<le> n \<and> n \<le> 90) \<or> n = 95 \<or> (97 \<le> n \<and> n \<le> 122))"

text \<open>The characters \<open>\s\<close> matches, among the code units below 256.\<close>

definition is_space_char :: "char \<Rightarrow> bool" where
  "is_space_char c =
     (let n = (of_char c :: nat) in (9 \<le> n \<and> n \<le> 13) \<or> n = 32 \<or> n = 160)"

datatype regex =
    Lit string
  | OneOf string "(char \<times> char) list"
  | Space
  | WordBoundary
  | Seq "regex list"
  | Alt "regex list"
  | Opt regex
  | Rep nat "nat option" regex

text \<open>A position in the text: the character before it (if any) and the rest of the text.\<close>

type_synonym mstate = "char option \<times> string"

text \<open>Two characters are the same; under the flag \<open>i\<close>, have the same upper case.\<close>

definition char_eq :: "bool \<Rightarrow> char \<Rightarrow> char \<Rightarrow> bool" where
  "char_eq ic a b = (if ic then upper_char a = upper_char b else a = b)"

fun match_lit :: "bool \<Rightarrow> string \<Rightarrow> mstate \<Rightarrow> mstate list" where
  "match_lit ic [] st = [st]"
| "match_lit ic (p # ps) (prev, []) = []"
| "match_lit ic (p # ps) (prev, c # cs) =
     (if char_eq ic p c then match_lit ic ps (Some c, cs) else [])"

definition in_class :: "bool \<Rightarrow> string \<Rightarrow> (char \<times> char) list \<Rightarrow> char \<Rightarrow> bool" where
  "in_class ic members ranges c =
     ((\<exists>m \<in> set members. char_eq ic m c)
      \<or> (\<exists>x \<in> set (if ic then [c, upper_char c, lower_char c] else [c]).
           \<exists>(lo, hi) \<in> set ranges.
              (of_char lo :: nat) \<le> of_char x \<and> (of_char x :: nat) \<le> of_char hi))"

definition at_boundary :: "mstate \<Rightarrow> bool" where
  "at_boundary st =
     ((case fst st of None \<Rightarrow> False | Some p \<Rightarrow> is_word_char p)
      \<noteq> (case snd st of [] \<Rightarrow> False | c # _ \<Rightarrow> is_word_char c))"

text \<open>
  Repetition: \<open>m\<close> iterations that must happen, then up to \<open>extra\<close> more; the positions
  after each admissible number of iterations.
\<close>

fun reps :: "(mstate \<Rightarrow> mstate list) \<Rightarrow> nat \<Rightarrow> nat \<Rightarrow> mstate list \<Rightarrow> mstate list" where
  "reps step 0 0 sts = sts"
| "reps step 0 (Suc extra) sts = sts @ reps step 0 extra (concat (map step sts))"
| "reps step (Suc m) extra sts = reps step m extra (concat (map step sts))"

text \<open>
  The positions at which a match of the expression that starts at the given position can
  end.  An unbounded repetition needs at most one iteration more per character left.
\<close>

fun rmatch :: "bool \<Rightarrow> regex \<Rightarrow> mstate \<Rightarrow> mstate list" where
  "rmatch ic (Lit s) st = match_lit ic s st"
| "rmatch ic (OneOf members ranges) st =
     (case snd st of [] \<Rightarrow> []
      | c # cs \<Rightarrow> if in_class ic members ranges c then [(Some c, cs)] else [])"
| "rmatch ic Space st =
     (case snd st of [] \<Rightarrow> [] | c # cs \<Rightarrow> if is_space_char c then [(Some c, cs)] else [])"
| "rmatch ic WordBoundary st = (if at_boundary st then [st] else [])"
| "rmatch ic (Seq rs) st = foldl (\<lambda>sts r. concat (map (\<lambda>s. rmatch ic r s) sts)) [st] rs"
| "rmatch ic (Alt rs) st = concat (map (\<lambda>r. rmatch ic r st) rs)"
| "rmatch ic (Opt r) st = rmatch ic r st @ [st]"
| "rmatch ic (Rep m n r) st =
     reps (\<lambda>s. rmatch ic r s) m (case n of None \<Rightarrow> length (snd st) | Some k \<Rightarrow> k - m) [st]"

fun search :: "bool \<Rightarrow> regex \<Rightarrow> char option \<Rightarrow> string \<Rightarrow> bool" where
  "search ic r prev [] = (rmatch ic r (prev, []) \<noteq> [])"
| "search ic r prev (c # cs) = (rmatch ic r (prev, c # cs) \<noteq> [] \<or> search ic r (Some c) cs)"

text \<open>
  A regular expression literal: its pattern and its flag \<open>i\<close> (the flag \<open>g\<close> of some of the
  literals only matters for \<open>lastIndex\<close>, which is 0 on the fresh objects the function
  builds at each call).
\<close>

record js_regex =
  source :: regex
  ignoreCase :: bool

text \<open>\<open>pattern.test(text)\<close>\<close>

definition test :: "js_regex \<Rightarrow> string \<Rightarrow> bool" where
  "test pattern text = search (ignoreCase pattern) (source pattern) None text"

section \<open>The upload page (\<open>Upload.tsx\<close>)\<close>

text \<open>\<^verbatim>\<open>/\b(4\/4|3\/4|2\/4|6\/8|12\/8|alla breve|C)\b/i\<close>\<close>

definition time_signature_pattern :: js_regex where
  "time_signature_pattern =
     \<lparr>source =
          Seq [WordBoundary, Alt [Lit ''4/4'', Lit ''3/4'', Lit ''2/4'', Lit ''6/8'',
          Lit ''12/8'', Lit ''alla breve'', Lit ''C''], WordBoundary],
      ignoreCase = True\<rparr>"

text \<open>\<^verbatim>\<open>/\b(Allegro|Andante|Presto|Moderato|Largo|Vivace|Lento|Adagio|Grave|Rit\.?|Accel\.?|A tempo)\b/i\<close>\<close>

definition tempo_pattern :: js_regex where
  "tempo_pattern =
     \<lparr>source =
          Seq [WordBoundary, Alt [Lit ''Allegro'', Lit ''Andante'', Lit ''Presto'',
          Lit ''Moderato'', Lit ''Largo'', Lit ''Vivace'', Lit ''Lento'', Lit ''Adagio'',
          Lit ''Grave'', Seq [Lit ''Rit'', Opt (Lit ''.'')], Seq [Lit ''Accel'',
          Opt (Lit ''.'')], Lit ''A tempo''], WordBoundary],
      ignoreCase = True\<rparr>"

text \<open>\<^verbatim>\<open>/\b(ppp|pp|p|mp|mf|f|ff|fff|sfz|cresc\.?|dim\.?|rit\.?|a tempo)\b/i\<close>\<close>

definition dynamics_pattern :: js_regex where
  "dynamics_pattern =
     \<lparr>source =
          Seq [WordBoundary, Alt [Lit ''ppp'', Lit ''pp'', Lit ''p'', Lit ''mp'',
          Lit ''mf'', Lit ''f'', Lit ''ff'', Lit ''fff'', Lit ''sfz'', Seq [Lit ''cresc'',
          Opt (Lit ''.'')], Seq [Lit ''dim'', Opt (Lit ''.'')], Seq [Lit ''rit'',
          Opt (Lit ''.'')], Lit ''a tempo''], WordBoundary],
      ignoreCase = True\<rparr>"

text \<open>\<^verbatim>\<open>/\b(Fermata|Slur|Tie|Staccato|Legato|Accent|Marcato|Trill|Mordent|Appoggiatura|Grace note|Repeat|Fine|Da Capo|D\.C\.|D\.S\.|Coda|Segno|Staff|Clef|Key|Time|Bar|Measure|Note|Rest)\b/i\<close>\<close>

definition articulation_pattern :: js_regex where
  "articulation_pattern =
     \<lparr>source =
          Seq [WordBoundary, Alt [Lit ''Fermata'', Lit ''Slur'', Lit ''Tie'',
          Lit ''Staccato'', Lit ''Legato'', Lit ''Accent'', Lit ''Marcato'', Lit ''Trill'',
          Lit ''Mordent'', Lit ''Appoggiatura'', Lit ''Grace note'', Lit ''Repeat'',
          Lit ''Fine'', Lit ''Da Capo'', Lit ''D.C.'', Lit ''D.S.'', Lit ''Coda'',
          Lit ''Segno'', Lit ''Staff'', Lit ''Clef'', Lit ''Key'', Lit ''Time'',
          Lit ''Bar'', Lit ''Measure'', Lit ''Note'', Lit ''Rest''], WordBoundary],
      ignoreCase = True\<rparr>"

text \<open>\<^verbatim>\<open>/((e|B|G|D|A|E)\|[-0-9xXhHpPsS\/\\()|=~btrPMpm]+\n?){4,}/g\<close>\<close>

definition tab_lines_pattern :: js_regex where
  "tab_lines_pattern =
     \<lparr>source =
          Rep 4 None (Seq [Alt [Lit ''e'', Lit ''B'', Lit ''G'', Lit ''D'', Lit ''A'',
          Lit ''E''], Lit ''|'',
          Rep 1 None (OneOf (''-xXhHpPsS/'' @ [CHR 0x5C] @ ''()|=~btrPMpm'') [(CHR ''0'',
          CHR ''9'')]), Opt (Lit [CHR 0x0A])]),
      ignoreCase = False\<rparr>"

text \<open>\<^verbatim>\<open>/EADGBE/i\<close>\<close>

definition tuning_pattern :: js_regex where
  "tuning_pattern =
     \<lparr>source =
          Lit ''EADGBE'',
      ignoreCase = True\<rparr>"

text \<open>\<^verbatim>\<open>/[0-9]{1,2}[-xXhHpPsS\/\\()|=~btrPMpm]{2,}/g\<close>\<close>

definition fret_pattern :: js_regex where
  "fret_pattern =
     \<lparr>source =
          Seq [Rep 1 (Some 2) (OneOf [] [(CHR ''0'', CHR ''9'')]),
          Rep 2 None (OneOf (''-xXhHpPsS/'' @ [CHR 0x5C] @ ''()|=~btrPMpm'') [])],
      ignoreCase = False\<rparr>"

text \<open>\<^verbatim>\<open>/\b([A-G](#|b)?(m|maj|min|sus|dim|aug|add|m7|maj7|7|9|11|13)?(\/[A-G](#|b)?)?)\b/g\<close>\<close>

definition chord_pattern :: js_regex where
  "chord_pattern =
     \<lparr>source =
          Seq [WordBoundary, OneOf [] [(CHR ''A'', CHR ''G'')], Opt (Alt [Lit ''#'',
          Lit ''b'']), Opt (Alt [Lit ''m'', Lit ''maj'', Lit ''min'', Lit ''sus'',
          Lit ''dim'', Lit ''aug'', Lit ''add'', Lit ''m7'', Lit ''maj7'', Lit ''7'',
          Lit ''9'', Lit ''11'', Lit ''13'']), Opt (Seq [Lit ''/'', OneOf [] [(CHR ''A'',
          CHR ''G'')], Opt (Alt [Lit ''#'', Lit ''b''])]), WordBoundary],
      ignoreCase = False\<rparr>"

text \<open>\<^verbatim>\<open>/\[([A-G][#b]?m?(maj7|m7|7|sus4|sus2|dim|aug|add9)?(\/[A-G][#b]?)?)\]/g\<close>\<close>

definition bracket_chord_pattern :: js_regex where
  "bracket_chord_pattern =
     \<lparr>source =
          Seq [Lit ''['', OneOf [] [(CHR ''A'', CHR ''G'')], Opt (OneOf ''#b'' []),
          Opt (Lit ''m''), Opt (Alt [Lit ''maj7'', Lit ''m7'', Lit ''7'', Lit ''sus4'',
          Lit ''sus2'', Lit ''dim'', Lit ''aug'', Lit ''add9'']), Opt (Seq [Lit ''/'',
          OneOf [] [(CHR ''A'', CHR ''G'')], Opt (OneOf ''#b'' [])]), Lit '']''],
      ignoreCase = False\<rparr>"

text \<open>\<^verbatim>\<open>/([A-G][#b]?m?(maj7|m7|7|sus4|sus2|dim|aug|add9)?\s+){2,}/g\<close>\<close>

definition chord_sequence_pattern :: js_regex where
  "chord_sequence_pattern =
     \<lparr>source =
          Rep 2 None (Seq [OneOf [] [(CHR ''A'', CHR ''G'')], Opt (OneOf ''#b'' []),
          Opt (Lit ''m''), Opt (Alt [Lit ''maj7'', Lit ''m7'', Lit ''7'', Lit ''sus4'',
          Lit ''sus2'', Lit ''dim'', Lit ''aug'', Lit ''add9'']), Rep 1 None Space]),
      ignoreCase = False\<rparr>"

text \<open>\<^verbatim>\<open>/\b(partitura|compasso|clave|notacao|nota|pentagrama|compas|clave|notacion|partition|mesure|cle|note|battuta|chiave|nota)\b/i\<close> (the source writes \<open>notacao\<close>, \<open>compas\<close>, \<open>notacion\<close> and \<open>cle\<close> with their accents)\<close>

definition vocabulary_pattern :: js_regex where
  "vocabulary_pattern =
     \<lparr>source =
          Seq [WordBoundary, Alt [Lit ''partitura'', Lit ''compasso'', Lit ''clave'',
          Lit (''nota'' @ [CHR 0xE7] @ [CHR 0xE3] @ ''o''), Lit ''nota'',
          Lit ''pentagrama'', Lit (''comp'' @ [CHR 0xE1] @ ''s''), Lit ''clave'',
          Lit (''notaci'' @ [CHR 0xF3] @ ''n''), Lit ''partition'', Lit ''mesure'',
          Lit (''cl'' @ [CHR 0xE9]), Lit ''note'', Lit ''battuta'', Lit ''chiave'',
          Lit ''nota''], WordBoundary],
      ignoreCase = True\<rparr>"

text \<open>The array \<open>patterns\<close> of \<open>isMusicSheetOrTab\<close>, in its order.\<close>

definition patterns :: "js_regex list" where
  "patterns =
     [time_signature_pattern, tempo_pattern, dynamics_pattern, articulation_pattern,
      tab_lines_pattern, tuning_pattern, fret_pattern,
      chord_pattern, bracket_chord_pattern, chord_sequence_pattern,
      vocabulary_pattern]"

text \<open>The loop \<open>for (const pattern of patterns) if (pattern.test(text)) matches++\<close>\<close>

fun count_matches :: "js_regex list \<Rightarrow> string \<Rightarrow> nat \<Rightarrow> nat" where
  "count_matches [] text matches = matches"
| "count_matches (pattern # rest) text matches =
     count_matches rest text (if test pattern text then matches + 1 else matches)"

definition isMusicSheetOrTab :: "string \<Rightarrow> bool" where
  "isMusicSheetOrTab text = (count_matches patterns text 0 \<ge> 2)"

text \<open>A \<open>File\<close> of the browser: its name, its declared MIME type and its size in bytes.\<close>

record js_file =
  f_name :: string
  f_type :: string
  f_size :: nat

definition MAX_FILE_SIZE :: nat where
  "MAX_FILE_SIZE = 5 * 1024 * 1024"

definition validFileTypes :: "string list" where
  "validFileTypes = [''pdf'', ''png'', ''jpg'', ''jpeg'', ''svg'']"

text \<open>The value \<open>{isScore, error}\<close> that \<open>validateMusicFile\<close> resolves to.\<close>

record validation_result =
  isScore :: bool
  vr_error :: string

definition unsupported_type_message :: string where
  "unsupported_type_message = (''Tipo de arquivo n'' @ [CHR 0xE3] @ ''o suportado.'')"

definition no_notation_message :: string where
  "no_notation_message = (''Arquivo n'' @ [CHR 0xE3] @ ''o cont'' @ [CHR 0xE9] @ ''m nota'' @ [CHR 0xE7] @ [CHR 0xE3] @ ''o musical v'' @ [CHR 0xE1] @ ''lida (partitura, cifra ou tablatura).'')"

text \<open>
  \<open>validateMusicFile\<close>.  The text that pdf.js and Tesseract read from the file, or what they
  throw, is the parameter \<open>ocr\<close>.
\<close>

definition validateMusicFile :: "(js_file \<Rightarrow> thrown + string) \<Rightarrow> js_file \<Rightarrow> validation_result" where
  "validateMusicFile ocr file =
     (if f_type file = ''application/pdf'' \<or> startsWith (f_type file) ''image/''
      then (case ocr file of
              Inl err \<Rightarrow> \<lparr>isScore = False, vr_error = ''Erro ao analisar arquivo: '' @ interpolate (message err)\<rparr>
            | Inr text \<Rightarrow>
                (let isValid = isMusicSheetOrTab text
                 in \<lparr>isScore = isValid,
                      vr_error = (if isValid then [] else no_notation_message)\<rparr>))
      else \<lparr>isScore = False, vr_error = unsupported_type_message\<rparr>)"

text \<open>
  The state of the component \<open>Upload\<close> that validation and submission read and write, with
  the signed-in user (\<open>user_id\<close> is empty when there is none) and whether the
  OpenSheetMusicDisplay instance exists.
\<close>

record upload_state =
  fd_title :: string
  fd_composer :: string
  fd_instrument :: string
  fd_difficulty :: string
  fd_tags :: "string list"
  fd_scales :: "string list"
  fd_file :: "js_file option"
  fd_midiFile :: "js_file option"
  isValidFile :: "bool option"
  validationMessage :: string
  error_text :: string
  success :: bool
  user_id :: string
  osmdInstance :: bool

text \<open>The part of \<open>handleFileChange\<close> that runs before the validation is awaited.\<close>

definition handleFileChange :: "js_file \<Rightarrow> upload_state \<Rightarrow> upload_state" where
  "handleFileChange selectedFile s =
     s\<lparr>fd_file := Some selectedFile, validationMessage := ''Validando arquivo...'',
       isValidFile := None, error_text := []\<rparr>"

text \<open>The first effect on \<open>formData.file\<close>: the size check (the preview is left out).\<close>

definition size_effect :: "upload_state \<Rightarrow> upload_state" where
  "size_effect s =
     (case fd_file s of
        Some file \<Rightarrow>
          (if f_size file > MAX_FILE_SIZE
           then s\<lparr>error_text := (''O arquivo excede o tamanho m'' @ [CHR 0xE1] @ ''ximo permitido (5MB).''), isValidFile := Some False,
                  validationMessage := (''Arquivo muito grande. O limite '' @ [CHR 0xE9] @ '' 5MB.'')\<rparr>
           else if f_type file = ''application/pdf''
           then s\<lparr>isValidFile := Some True, validationMessage := ''PDF aceito para upload.''\<rparr>
           else s)
      | None \<Rightarrow> s\<lparr>isValidFile := None, validationMessage := []\<rparr>)"

text \<open>\<open>formData.file.name.split('.').pop()?.toLowerCase()\<close>\<close>

definition file_ext :: "js_file \<Rightarrow> string" where
  "file_ext file = toLowerCase (pop (split CHR ''.'' (f_name file)))"

text \<open>
  The effect on \<open>formData.file\<close> and \<open>osmdInstance\<close>, up to the point where it hands a
  MusicXML or SVG file to the \<open>FileReader\<close>.
\<close>

definition osmd_effect :: "upload_state \<Rightarrow> upload_state" where
  "osmd_effect s =
     (case fd_file s of
        Some file \<Rightarrow>
          (if osmdInstance s
           then (if file_ext file \<in> set [''xml'', ''musicxml'', ''mxl'', ''svg''] then s
                 else if file_ext file = ''pdf''
                 then s\<lparr>isValidFile := Some True, validationMessage := (''PDF aceito. N'' @ [CHR 0xE3] @ ''o '' @ [CHR 0xE9] @ '' poss'' @ [CHR 0xED] @ ''vel verificar a estrutura interna.'')\<rparr>
                 else s\<lparr>isValidFile := Some False, validationMessage := (''Tipo de arquivo n'' @ [CHR 0xE3] @ ''o suportado. Use MusicXML, SVG ou PDF.'')\<rparr>)
           else s)
      | None \<Rightarrow> s)"

text \<open>What the load of a MusicXML or SVG file into OpenSheetMusicDisplay ends with.\<close>

datatype osmd_outcome = Rendered | LoadRejected string | LoadThrew

definition osmd_done :: "osmd_outcome \<Rightarrow> upload_state \<Rightarrow> upload_state" where
  "osmd_done outcome s =
     (case outcome of
        Rendered \<Rightarrow> s\<lparr>isValidFile := Some True, validationMessage := (''Partitura v'' @ [CHR 0xE1] @ ''lida! Pronta para upload.'')\<rparr>
      | LoadRejected msg \<Rightarrow>
          s\<lparr>error_text := ''Erro ao renderizar a partitura: '' @ msg, isValidFile := Some False,
            validationMessage := (''Formato de partitura inv'' @ [CHR 0xE1] @ ''lido. Verifique se '' @ [CHR 0xE9] @ '' um arquivo MusicXML v'' @ [CHR 0xE1] @ ''lido.'')\<rparr>
      | LoadThrew \<Rightarrow>
          s\<lparr>error_text := (''Formato de arquivo n'' @ [CHR 0xE3] @ ''o suportado''), isValidFile := Some False,
            validationMessage := (''Formato de partitura inv'' @ [CHR 0xE1] @ ''lido ou n'' @ [CHR 0xE3] @ ''o suportado pelo visualizador.'')\<rparr>)"

text \<open>The rest of \<open>handleFileChange\<close>, once \<open>validateMusicFile\<close> has answered.\<close>

definition validation_done :: "(js_file \<Rightarrow> thrown + string) \<Rightarrow> js_file \<Rightarrow> upload_state \<Rightarrow> upload_state" where
  "validation_done ocr selectedFile s =
     (let validationResult = validateMusicFile ocr selectedFile
      in if isScore validationResult
         then s\<lparr>validationMessage := ''Arquivo validado como partitura/cifra!'',
                isValidFile := Some True\<rparr>
         else s\<lparr>validationMessage := or_else (vr_error validationResult) (''Arquivo n'' @ [CHR 0xE3] @ ''o '' @ [CHR 0xE9] @ '' uma partitura/cifra reconhecida.''),
                isValidFile := Some False\<rparr>)"

text \<open>
  Choosing a file: the synchronous part of \<open>handleFileChange\<close>, the two effects that the
  new \<open>formData.file\<close> triggers, in the order of their declaration, and then the answer of
  the validation, which takes the time of the text recognition.
\<close>

definition select_file :: "(js_file \<Rightarrow> thrown + string) \<Rightarrow> js_file \<Rightarrow> upload_state \<Rightarrow> upload_state" where
  "select_file ocr selectedFile s =
     validation_done ocr selectedFile (osmd_effect (size_effect (handleFileChange selectedFile s)))"

text \<open>The row that \<open>handleSubmit\<close> inserts into \<open>music_sheets\<close>.\<close>

record sheet_insert =
  ins_title :: string
  ins_composer :: string
  ins_instrument :: string
  ins_difficulty :: string
  ins_tags :: "string list"
  ins_scales :: "string list"
  ins_file_url :: string
  ins_midi_url :: "string option"
  ins_file_type :: string
  ins_user_id :: string
  ins_mei_url :: "string option"

text \<open>What the page has written to the backend: the uploads, in order, and the rows.\<close>

record upload_backend =
  uploaded :: "(string \<times> js_file) list"
  inserted :: "sheet_insert list"

text \<open>
  What the outside world answers during one \<open>handleSubmit\<close>: the error (if any) of each
  call, and the decimal text of the two readings of \<open>Date.now()\<close>.
\<close>

record submit_env =
  sheet_upload_error :: "thrown option"
  midi_upload_error :: "thrown option"
  insert_error :: "thrown option"
  date_now :: string
  date_now_midi :: string

text \<open>The chain \<open>if (fileExt === 'pdf') ... else if ...\<close> that sets \<open>fileType\<close>.\<close>

definition fileType_of :: "string \<Rightarrow> string" where
  "fileType_of fileExt =
     (if fileExt = ''pdf'' then ''pdf''
      else if fileExt \<in> set [''xml'', ''musicxml'', ''mxl''] then ''musicxml''
      else if fileExt = ''svg'' then ''svg''
      else [])"

definition handleSubmit :: "submit_env \<Rightarrow> upload_state \<Rightarrow> upload_backend \<Rightarrow> upload_state \<times> upload_backend" where
  "handleSubmit env s b =
     (if user_id s = [] then (s\<lparr>error_text := (''Sess'' @ [CHR 0xE3] @ ''o expirada. Por favor, fa'' @ [CHR 0xE7] @ ''a login novamente.'')\<rparr>, b)
      else if fd_title s = [] \<or> fd_composer s = [] \<or> fd_instrument s = []
      then (s\<lparr>error_text := (''Por favor, preencha todos os campos obrigat'' @ [CHR 0xF3] @ ''rios.'')\<rparr>, b)
      else (case fd_file s of
              None \<Rightarrow> (s\<lparr>error_text := ''Por favor, selecione um arquivo de partitura para upload.''\<rparr>, b)
            | Some file \<Rightarrow>
     (if isValidFile s = Some False then (s\<lparr>error_text := (''O arquivo selecionado n'' @ [CHR 0xE3] @ ''o '' @ [CHR 0xE9] @ '' v'' @ [CHR 0xE1] @ ''lido. Por favor, selecione outro arquivo.'')\<rparr>, b)
      else
     (let fileExt = or_else (file_ext file) [];
          fileName = date_now env @ ''-'' @ f_name file;
          filePath = user_id s @ ''/'' @ fileName
      in (case sheet_upload_error env of
            Some uploadError \<Rightarrow> (s\<lparr>error_text := ''Erro no upload: '' @ interpolate (message uploadError)\<rparr>, b)
          | None \<Rightarrow>
     (let b1 = b\<lparr>uploaded := uploaded b @ [(filePath, file)]\<rparr>
      in (case (case fd_midiFile s of
                  None \<Rightarrow> Inr (None, b1)
                | Some midiFile \<Rightarrow>
                    (let midiFilePath = user_id s @ ''/'' @ date_now_midi env @ ''-'' @ f_name midiFile
                     in (case midi_upload_error env of
                           Some midiUploadError \<Rightarrow>
                             Inl (''Erro no upload do MIDI: '' @ interpolate (message midiUploadError))
                         | None \<Rightarrow>
                             Inr (Some midiFilePath,
                                  b1\<lparr>uploaded := uploaded b1 @ [(midiFilePath, midiFile)]\<rparr>)))) of
            Inl msg \<Rightarrow> (s\<lparr>error_text := msg\<rparr>, b1)
          | Inr (midiUrl, b2) \<Rightarrow>
     (case insert_error env of
        Some insertError \<Rightarrow>
          (s\<lparr>error_text := ''Erro ao salvar no banco: '' @ interpolate (message insertError)\<rparr>, b2)
      | None \<Rightarrow>
          (s\<lparr>fd_title := [], fd_composer := [], fd_instrument := [],
             fd_difficulty := ''beginner'', fd_tags := [], fd_scales := [],
             fd_file := None, fd_midiFile := None, error_text := [], success := True\<rparr>,
           b2\<lparr>inserted := inserted b2 @
              [\<lparr>ins_title = fd_title s, ins_composer = fd_composer s,
                ins_instrument = fd_instrument s, ins_difficulty = fd_difficulty s,
                ins_tags = fd_tags s, ins_scales = fd_scales s,
                ins_file_url = filePath, ins_midi_url = midiUrl,
                ins_file_type = fileType_of fileExt, ins_user_id = user_id s,
                ins_mei_url = None\<rparr>]\<rparr>)))))))))"

section \<open>Observations and sample inputs\<close>

text \<open>
  The MEI artifact of a run: what the bucket holds, after the run, at the path the run
  returned; nothing when the run threw.
\<close>

definition artifact :: "(thrown + conversion_result) \<times> world \<Rightarrow> string option" where
  "artifact run = (case fst run of Inl _ \<Rightarrow> None | Inr result \<Rightarrow> bucket (snd run) (fst result))"

text \<open>A run in which every call succeeds, downloading \<open>bytes\<close> at the time \<open>now\<close>.\<close>

definition ok_env :: "string \<Rightarrow> string \<Rightarrow> io_env" where
  "ok_env bytes now =
     \<lparr>status_update_error = None, mkdir_error = None, download_result = Inr bytes,
      local_write_error = None, upload_error = None, public_url = None,
      final_update_error = None, cleanup_error = None, failed_update_error = None,
      handler_failed_update_error = None, now_iso = now\<rparr>"

text \<open>A row of a MusicXML file in a given state, and a backend with an empty bucket.\<close>

definition sheet_of :: "string \<Rightarrow> string \<Rightarrow> conversion_status \<Rightarrow> music_sheet" where
  "sheet_of i path st =
     \<lparr>id = i, file_url = path, file_type = ''musicxml'', conversion_status = Some st,
      conversion_error = None, mei_url = None, mei_public_url = None\<rparr>"

definition world_of :: "music_sheet list \<Rightarrow> world" where
  "world_of rows = \<lparr>sheets = rows, bucket = Map.empty\<rparr>"

text \<open>
  Two MusicXML documents: the sample of \<open>server.js\<close> with a second measure added, and a
  document of one measure.
\<close>

definition two_measures :: string where
  "two_measures =
 ''<?xml version=\"1.0\" encoding=\"UTF-8\"?>\<newline>'' @
 ''<score-partwise version=\"3.1\">\<newline>'' @
 ''  <part-list>\<newline>'' @
 ''    <score-part id=\"P1\">\<newline>'' @
 ''      <part-name>Music</part-name>\<newline>'' @
 ''    </score-part>\<newline>'' @
 ''  </part-list>\<newline>'' @
 ''  <part id=\"P1\">\<newline>'' @
 ''    <measure number=\"1\">\<newline>'' @
 ''      <attributes>\<newline>'' @
 ''        <divisions>1</divisions>\<newline>'' @
 ''        <key><fifths>0</fifths></key>\<newline>'' @
 ''        <time><beats>4</beats><beat-type>4</beat-type></time>\<newline>'' @
 ''        <clef><sign>G</sign><line>2</line></clef>\<newline>'' @
 ''      </attributes>\<newline>'' @
 ''      <note>\<newline>'' @
 ''        <pitch><step>C</step><octave>4</octave></pitch>\<newline>'' @
 ''        <duration>4</duration>\<newline>'' @
 ''        <type>whole</type>\<newline>'' @
 ''      </note>\<newline>'' @
 ''    </measure>\<newline>'' @
 ''    <measure number=\"2\">\<newline>'' @
 ''      <note>\<newline>'' @
 ''        <pitch><step>D</step><octave>4</octave></pitch>\<newline>'' @
 ''        <duration>4</duration>\<newline>'' @
 ''        <type>whole</type>\<newline>'' @
 ''      </note>\<newline>'' @
 ''    </measure>\<newline>'' @
 ''  </part>\<newline>'' @
 ''</score-partwise>''"

definition one_measure :: string where
  "one_measure = ''<score-partwise><part id=\"P1\"><measure number=\"1\"/></part></score-partwise>''"

text \<open>Values of \<open>new Date().toISOString()\<close>: two on one day, one on the next.\<close>

definition day1 :: string where
  "day1 = ''2024-01-01T10:00:00.000Z''"

definition day1_later :: string where
  "day1_later = ''2024-01-01T23:59:59.999Z''"

definition day2 :: string where
  "day2 = ''2024-01-02T10:00:00.000Z''"

text \<open>What \<open>fs.rmSync\<close> throws when the temporary directory cannot be removed.\<close>

definition cleanup_failure :: thrown where
  "cleanup_failure = Error_instance ''EBUSY: resource busy or locked, rmdir temp/f1''"

text \<open>A conversion request for the file \<open>f1\<close>.\<close>

definition req_f1 :: convert_request where
  "req_f1 = \<lparr>req_fileId = ''f1'', req_filePath = ''u1/a.xml'', req_fileType = ''musicxml''\<rparr>"

text \<open>Every row of the file is in a terminal state.\<close>

definition settled_in :: "string \<Rightarrow> world \<Rightarrow> bool" where
  "settled_in fileId w \<longleftrightarrow>
     (\<forall>r \<in> set (sheets w). id r = fileId \<longrightarrow>
        conversion_status r = Some completed \<or> conversion_status r = Some failed)"

text \<open>A configured edge function and a request to its batch route.\<close>

definition demo_cfg :: edge_config where
  "demo_cfg = \<lparr>supabaseUrl = ''https://project.supabase.co'', supabaseServiceKey = ''service-role-key''\<rparr>"

definition convert_all_req :: edge_request where
  "convert_all_req = \<lparr>req_method = ''POST'', req_pathname = ''/functions/v1/convert-to-mei/convert-all'',
     req_json = \<lparr>req_fileId = [], req_filePath = [], req_fileType = []\<rparr>\<rparr>"

text \<open>
  A batch in which the first file cannot be downloaded and every other file converts, on
  a table of two pending rows with a completed row between them.
\<close>

definition storage_down :: thrown where
  "storage_down = Error_instance ''Object not found''"

definition first_fails :: edge_env where
  "first_fails = \<lparr>query_error = None,
     file_env = (\<lambda>fileId. if fileId = ''f1''
        then (ok_env [] day1)\<lparr>download_result := Inl storage_down\<rparr>
        else ok_env one_measure day1)\<rparr>"

definition three_rows :: world where
  "three_rows = world_of [sheet_of ''f1'' ''u1/a.xml'' pending, sheet_of ''f3'' ''u1/c.xml'' completed,
      sheet_of ''f2'' ''u1/b.xml'' pending]"

text \<open>
  The entry of the result list that the conversion of one file gives; the outcome of a
  conversion does not depend on the backend it starts from.
\<close>

definition batch_entry :: "(string \<Rightarrow> io_env) \<Rightarrow> world \<Rightarrow> music_sheet \<Rightarrow> json" where
  "batch_entry envs w file =
     (case fst (processFile_edge (envs (id file)) (id file) (file_url file) (file_type file) w) of
        Inr result \<Rightarrow> success_entry (id file) result
      | Inl error \<Rightarrow> failure_entry (id file) error)"

text \<open>The rows of a file, in the order of the table.\<close>

definition rows_with :: "string \<Rightarrow> world \<Rightarrow> music_sheet list" where
  "rows_with x w = filter (\<lambda>r. id r = x) (sheets w)"

text \<open>
  The backend after one pass through the body of the batch loop, for the file \<open>f\<close>.
\<close>

definition batch_step :: "(string \<Rightarrow> io_env) \<Rightarrow> music_sheet \<Rightarrow> world \<Rightarrow> world" where
  "batch_step envs f w =
     (case processFile_edge (envs (id f)) (id f) (file_url f) (file_type f) w of
        (Inr result, w') \<Rightarrow> w'
      | (Inl error, w') \<Rightarrow>
          record_failure (handler_failed_update_error (envs (id f))) (error_message error) (id f) w')"

section \<open>The decision rule in the words of the specification\<close>

text \<open>
  The specification names six categories of patterns and accepts a text when at least two
  distinct categories match.  The eleven expressions of the source fall into the
  categories as follows (tempo and dynamics are one category, as are the three
  expressions for tablature and the three for chord symbols).
\<close>

datatype category = TimeSignature | TempoDynamics | Articulation | Tablature | ChordSymbol
  | Vocabulary

definition pattern_categories :: "(js_regex \<times> category) list" where
  "pattern_categories =
     zip patterns
       [TimeSignature, TempoDynamics, TempoDynamics, Articulation,
        Tablature, Tablature, Tablature,
        ChordSymbol, ChordSymbol, ChordSymbol,
        Vocabulary]"

text \<open>The distinct categories that have an expression matching the text.\<close>

definition matched_categories :: "string \<Rightarrow> category list" where
  "matched_categories text =
     remdups (map snd (filter (\<lambda>pc. test (fst pc) text) pattern_categories))"

text \<open>The rule as the specification states it.\<close>

definition spec_valid_notation :: "string \<Rightarrow> bool" where
  "spec_valid_notation text = (2 \<le> length (matched_categories text))"

section \<open>Sample files and forms\<close>

text \<open>A MusicXML file as a browser reports it, and a PNG scan of six mebibytes.\<close>

definition xml_file :: js_file where
  "xml_file = \<lparr>f_name = ''score.xml'', f_type = ''text/xml'', f_size = 2048\<rparr>"

definition big_png :: js_file where
  "big_png = \<lparr>f_name = ''scan.png'', f_type = ''image/png'', f_size = 6 * 1024 * 1024\<rparr>"

text \<open>A text recognition that reads the single word \<open>rit\<close>.\<close>

definition reads_rit :: "js_file \<Rightarrow> thrown + string" where
  "reads_rit file = Inr ''rit''"

text \<open>
  The page with the form filled in by a signed-in user, before a file is chosen (no
  element carries \<open>osmdRef\<close>, so there is no OpenSheetMusicDisplay instance); a
  submission in which every call succeeds; and a backend with nothing in it.
\<close>

definition filled_form :: upload_state where
  "filled_form =
     \<lparr>fd_title = ''Prelude'', fd_composer = ''Bach'', fd_instrument = ''Piano'',
      fd_difficulty = ''beginner'', fd_tags = [], fd_scales = [],
      fd_file = None, fd_midiFile = None, isValidFile = None, validationMessage = [],
      error_text = [], success = False, user_id = ''u1'', osmdInstance = False\<rparr>"

definition ok_submit :: submit_env where
  "ok_submit =
     \<lparr>sheet_upload_error = None, midi_upload_error = None, insert_error = None,
      date_now = ''1700000000000'', date_now_midi = ''1700000000001''\<rparr>"

definition empty_backend :: upload_backend where
  "empty_backend = \<lparr>uploaded = [], inserted = []\<rparr>"

section \<open>The MEI template: counting and comparing\<close>

lemma tag_here_append: "c \<in> set t \<Longrightarrow> c \<notin> set n \<Longrightarrow> tag_here n (t @ ys) = tag_here n t"
proof (induction n t rule: tag_here.induct)
  case (1 s)
  then show ?case by (cases s) auto
next
  case (2 n ns)
  then show ?case by simp
next
  case (3 n ns c' cs)
  then show ?case by auto
qed

lemma count_elements_append:
  "xs \<noteq> [] \<Longrightarrow> last xs \<notin> set n \<Longrightarrow> last xs \<noteq> CHR ''<'' \<Longrightarrow>
   count_elements n (xs @ ys) = count_elements n xs + count_elements n ys"
proof (induction xs)
  case Nil
  then show ?case by simp
next
  case (Cons x xs)
  show ?case
  proof (cases "xs = []")
    case True
    with Cons.prems show ?thesis by simp
  next
    case False
    with Cons.prems have l: "last xs \<notin> set n" "last xs \<noteq> CHR ''<''" by simp_all
    from False have "last xs \<in> set xs" by simp
    then have "tag_here n (xs @ ys) = tag_here n xs"
      using l(1) by (rule tag_here_append)
    with Cons.IH[OF False l] show ?thesis by simp
  qed
qed

lemma count_elements_no_lt:
  "CHR ''<'' \<notin> set xs \<Longrightarrow> count_elements n (xs @ ys) = count_elements n ys"
  by (induction xs) auto

lemma head_count: "count_elements ''measure'' mei_head = 0" by code_simp
lemma middle_count: "count_elements ''measure'' mei_middle = 0" by code_simp
lemma tail_count: "count_elements ''measure'' mei_tail = 1" by code_simp
lemma head_last: "mei_head \<noteq> [] \<and> last mei_head \<notin> set ''measure'' \<and> last mei_head \<noteq> CHR ''<''" by code_simp
lemma middle_last: "mei_middle \<noteq> [] \<and> last mei_middle \<notin> set ''measure'' \<and> last mei_middle \<noteq> CHR ''<''" by code_simp

lemma template_one_measure:
  "CHR ''<'' \<notin> set f \<Longrightarrow> CHR ''<'' \<notin> set d \<Longrightarrow> count_elements ''measure'' (meiTemplate f d) = 1"
  using head_last middle_last
  by (simp add: meiTemplate_def count_elements_append count_elements_no_lt head_count middle_count tail_count)

lemma template_date_inj: "meiTemplate f d1 = meiTemplate f d2 \<longleftrightarrow> d1 = d2"
  by (simp add: meiTemplate_def)

lemma upload_and_complete_Inr:
  "upload_and_complete env fid p c w = (Inr r, w') \<Longrightarrow> fst r = p \<and> bucket w' p = Some c"
  by (auto simp: upload_and_complete_def update_eq_id_def Let_def split: option.splits)

lemma artifact_express:
  "artifact (processFile_express env fid path t w) = Some mei \<Longrightarrow>
   mei = meiTemplate (express_fileName path) (isodate env)"
  by (auto simp: artifact_def processFile_express_def express_try_def
      split: option.splits sum.splits if_splits prod.splits dest!: upload_and_complete_Inr)

lemma artifact_edge:
  "artifact (processFile_edge env fid path t w) = Some mei \<Longrightarrow>
   mei = meiTemplate (edge_fileName path) (isodate env)"
  by (auto simp: artifact_def processFile_edge_def edge_try_def
      split: option.splits sum.splits if_splits prod.splits dest!: upload_and_complete_Inr)

text \<open>The equations that evaluate a run on a concrete input.\<close>

lemmas run_defs = processFile_express_def express_try_def processFile_edge_def edge_try_def
  upload_and_complete_def ok_env_def world_of_def sheet_of_def update_eq_id_def set_completed_def
  set_processing_def set_failed_def record_failure_def artifact_def
  express_fileExt_def express_fileName_def express_meiStoragePath_def
  edge_fileExt_def edge_fileName_def edge_meiFileName_def
  path_basename_def path_extname_def path_basename_ext_def lastIndexOf_def substring0_def
  substring_from_def toLowerCase_def lower_char_def or_else_def or_default_def interpolate_def
  error_message_def pop_def first_def isodate_def
  day1_def day2_def day1_later_def Let_def

lemma artifact_express_eq:
  assumes "artifact (processFile_express env1 i1 p1 t1 w1) \<noteq> None"
      and "artifact (processFile_express env2 i2 p2 t2 w2) \<noteq> None"
      and "express_fileName p1 = express_fileName p2"
  shows "artifact (processFile_express env1 i1 p1 t1 w1) = artifact (processFile_express env2 i2 p2 t2 w2)
         \<longleftrightarrow> isodate env1 = isodate env2"
proof -
  from assms(1) obtain m1 where m1: "artifact (processFile_express env1 i1 p1 t1 w1) = Some m1"
    by blast
  from assms(2) obtain m2 where m2: "artifact (processFile_express env2 i2 p2 t2 w2) = Some m2"
    by blast
  from artifact_express [OF m1] artifact_express [OF m2] assms(3) m1 m2 show ?thesis
    by (simp add: template_date_inj)
qed

lemma artifact_edge_eq:
  assumes "artifact (processFile_edge env1 i1 p1 t1 w1) \<noteq> None"
      and "artifact (processFile_edge env2 i2 p2 t2 w2) \<noteq> None"
      and "edge_fileName p1 = edge_fileName p2"
  shows "artifact (processFile_edge env1 i1 p1 t1 w1) = artifact (processFile_edge env2 i2 p2 t2 w2)
         \<longleftrightarrow> isodate env1 = isodate env2"
proof -
  from assms(1) obtain m1 where m1: "artifact (processFile_edge env1 i1 p1 t1 w1) = Some m1"
    by blast
  from assms(2) obtain m2 where m2: "artifact (processFile_edge env2 i2 p2 t2 w2) = Some m2"
    by blast
  from artifact_edge [OF m1] artifact_edge [OF m2] assms(3) m1 m2 show ?thesis
    by (simp add: template_date_inj)
qed

lemma sample_express_artifact:
  "artifact (processFile_express (ok_env two_measures day1) ''f1'' ''u1/a.xml'' ''musicxml''
      (world_of [sheet_of ''f1'' ''u1/a.xml'' processing]))
   = Some (meiTemplate ''a.xml'' ''2024-01-01'')"
  by (simp add: run_defs)

lemma sample_edge_artifact:
  "artifact (processFile_edge (ok_env two_measures day1) ''f1'' ''u1/a.xml'' ''musicxml''
      (world_of [sheet_of ''f1'' ''u1/a.xml'' pending]))
   = Some (meiTemplate ''a.xml'' ''2024-01-01'')"
  by (simp add: run_defs)

lemma two_measures_count: "count_elements ''measure'' two_measures = 2"
  by code_simp

lemma sample_names_no_lt:
  "CHR ''<'' \<notin> set (express_fileName ''u1/a.xml'')"
  "CHR ''<'' \<notin> set (edge_fileName ''u1/a.xml'')"
  "CHR ''<'' \<notin> set (isodate (ok_env two_measures day1))"
  by (simp_all add: run_defs)

section \<open>Claims about the converter's output\<close>

text \<open>
  Claim C2 says that the MEI produced from a valid MusicXML score has as many
  \<open>measure\<close> elements as the source.  It fails: the document \<open>two_measures\<close> has two
  measures, and the MEI that either service stores for it has one.
\<close>

theorem measure_count_not_preserved:
  "count_elements ''measure'' two_measures = 2
   \<and> artifact (processFile_express (ok_env two_measures day1) ''f1'' ''u1/a.xml'' ''musicxml''
        (world_of [sheet_of ''f1'' ''u1/a.xml'' processing]))
       = Some (meiTemplate ''a.xml'' ''2024-01-01'')
   \<and> artifact (processFile_edge (ok_env two_measures day1) ''f1'' ''u1/a.xml'' ''musicxml''
        (world_of [sheet_of ''f1'' ''u1/a.xml'' pending]))
       = Some (meiTemplate ''a.xml'' ''2024-01-01'')
   \<and> count_elements ''measure'' (meiTemplate ''a.xml'' ''2024-01-01'') = 1"
  using two_measures_count sample_express_artifact sample_edge_artifact
  by (simp add: template_one_measure)

text \<open>
  Claim C2 as amended: the MEI that a run of \<open>processFile\<close> stores (either service, any
  input whose file name and date contain no \<open><\<close>) has exactly one \<open>measure\<close> element,
  whatever the source holds; the count of the source is preserved only when that count
  is one.
\<close>

theorem mei_has_one_measure:
  "(artifact (processFile_express env fileId filePath fileType w) = Some mei
      \<and> CHR ''<'' \<notin> set (express_fileName filePath) \<and> CHR ''<'' \<notin> set (isodate env)
    \<longrightarrow> count_elements ''measure'' mei = 1) \<and>
   (artifact (processFile_edge env fileId filePath fileType w') = Some mei
      \<and> CHR ''<'' \<notin> set (edge_fileName filePath) \<and> CHR ''<'' \<notin> set (isodate env)
    \<longrightarrow> count_elements ''measure'' mei = 1)"
  using artifact_express artifact_edge template_one_measure by blast

theorem mei_has_one_measure_witness:
  "artifact (processFile_express (ok_env two_measures day1) ''f1'' ''u1/a.xml'' ''musicxml''
      (world_of [sheet_of ''f1'' ''u1/a.xml'' processing]))
     = Some (meiTemplate ''a.xml'' ''2024-01-01'')
   \<and> artifact (processFile_edge (ok_env two_measures day1) ''f1'' ''u1/a.xml'' ''musicxml''
      (world_of [sheet_of ''f1'' ''u1/a.xml'' pending]))
     = Some (meiTemplate ''a.xml'' ''2024-01-01'')
   \<and> CHR ''<'' \<notin> set (express_fileName ''u1/a.xml'')
   \<and> CHR ''<'' \<notin> set (edge_fileName ''u1/a.xml'')
   \<and> CHR ''<'' \<notin> set (isodate (ok_env two_measures day1))
   \<and> count_elements ''measure'' (meiTemplate ''a.xml'' ''2024-01-01'') = 1"
  using mei_has_one_measure [of "ok_env two_measures day1" "''f1''" "''u1/a.xml''" "''musicxml''"
      "world_of [sheet_of ''f1'' ''u1/a.xml'' processing]" "meiTemplate ''a.xml'' ''2024-01-01''"
      "world_of [sheet_of ''f1'' ''u1/a.xml'' pending]"]
    sample_express_artifact sample_edge_artifact sample_names_no_lt
  by simp

text \<open>
  Claim C6 says that converting the same MusicXML input twice with the same converter
  gives byte-identical MEI.  It fails across midnight (UTC): the template writes the
  date of the run into the document.
\<close>

theorem conversion_differs_across_dates:
  "artifact (processFile_express (ok_env two_measures day1) ''f1'' ''u1/a.xml'' ''musicxml''
      (world_of [sheet_of ''f1'' ''u1/a.xml'' processing]))
   \<noteq> artifact (processFile_express (ok_env two_measures day2) ''f1'' ''u1/a.xml'' ''musicxml''
      (world_of [sheet_of ''f1'' ''u1/a.xml'' processing]))"
  by (simp add: run_defs template_date_inj)


text \<open>
  Claim C6 as amended: two runs on the same input that both store an artifact store the
  same bytes exactly when they run on the same UTC date (the first ten characters of
  \<open>toISOString()\<close>).
\<close>

theorem conversion_identical_iff_same_date:
  "(artifact (processFile_express env1 fileId filePath fileType w1) \<noteq> None
    \<and> artifact (processFile_express env2 fileId filePath fileType w2) \<noteq> None
    \<longrightarrow> (artifact (processFile_express env1 fileId filePath fileType w1)
           = artifact (processFile_express env2 fileId filePath fileType w2)
         \<longleftrightarrow> isodate env1 = isodate env2)) \<and>
   (artifact (processFile_edge env1 fileId filePath fileType w1) \<noteq> None
    \<and> artifact (processFile_edge env2 fileId filePath fileType w2) \<noteq> None
    \<longrightarrow> (artifact (processFile_edge env1 fileId filePath fileType w1)
           = artifact (processFile_edge env2 fileId filePath fileType w2)
         \<longleftrightarrow> isodate env1 = isodate env2))"
  using artifact_express_eq [of env1 fileId filePath fileType w1 env2 fileId filePath fileType w2]
    artifact_edge_eq [of env1 fileId filePath fileType w1 env2 fileId filePath fileType w2]
  by simp

theorem conversion_identical_iff_same_date_witness:
  "artifact (processFile_express (ok_env two_measures day1) ''f1'' ''u1/a.xml'' ''musicxml''
      (world_of [sheet_of ''f1'' ''u1/a.xml'' processing])) \<noteq> None
   \<and> artifact (processFile_express (ok_env two_measures day1_later) ''f1'' ''u1/a.xml'' ''musicxml''
      (world_of [sheet_of ''f1'' ''u1/a.xml'' processing])) \<noteq> None
   \<and> artifact (processFile_edge (ok_env two_measures day1) ''f1'' ''u1/a.xml'' ''musicxml''
      (world_of [sheet_of ''f1'' ''u1/a.xml'' processing])) \<noteq> None
   \<and> artifact (processFile_edge (ok_env two_measures day1_later) ''f1'' ''u1/a.xml'' ''musicxml''
      (world_of [sheet_of ''f1'' ''u1/a.xml'' processing])) \<noteq> None
   \<and> isodate (ok_env two_measures day1) = isodate (ok_env two_measures day1_later)
   \<and> artifact (processFile_express (ok_env two_measures day1) ''f1'' ''u1/a.xml'' ''musicxml''
      (world_of [sheet_of ''f1'' ''u1/a.xml'' processing]))
     = artifact (processFile_express (ok_env two_measures day1_later) ''f1'' ''u1/a.xml'' ''musicxml''
      (world_of [sheet_of ''f1'' ''u1/a.xml'' processing]))
   \<and> artifact (processFile_edge (ok_env two_measures day1) ''f1'' ''u1/a.xml'' ''musicxml''
      (world_of [sheet_of ''f1'' ''u1/a.xml'' processing]))
     = artifact (processFile_edge (ok_env two_measures day1_later) ''f1'' ''u1/a.xml'' ''musicxml''
      (world_of [sheet_of ''f1'' ''u1/a.xml'' processing]))"
proof -
  have a: "artifact (processFile_express (ok_env two_measures day1) ''f1'' ''u1/a.xml'' ''musicxml''
      (world_of [sheet_of ''f1'' ''u1/a.xml'' processing])) \<noteq> None"
    by (simp add: run_defs)
  have b: "artifact (processFile_express (ok_env two_measures day1_later) ''f1'' ''u1/a.xml'' ''musicxml''
      (world_of [sheet_of ''f1'' ''u1/a.xml'' processing])) \<noteq> None"
    by (simp add: run_defs)
  have c: "artifact (processFile_edge (ok_env two_measures day1) ''f1'' ''u1/a.xml'' ''musicxml''
      (world_of [sheet_of ''f1'' ''u1/a.xml'' processing])) \<noteq> None"
    by (simp add: run_defs)
  have d: "artifact (processFile_edge (ok_env two_measures day1_later) ''f1'' ''u1/a.xml'' ''musicxml''
      (world_of [sheet_of ''f1'' ''u1/a.xml'' processing])) \<noteq> None"
    by (simp add: run_defs)
  have e: "isodate (ok_env two_measures day1) = isodate (ok_env two_measures day1_later)"
    by (simp add: run_defs)
  from a b c d e
    conversion_identical_iff_same_date [of "ok_env two_measures day1" "''f1''" "''u1/a.xml''" "''musicxml''"
      "world_of [sheet_of ''f1'' ''u1/a.xml'' processing]" "ok_env two_measures day1_later"
      "world_of [sheet_of ''f1'' ''u1/a.xml'' processing]"]
  show ?thesis by simp
qed

text \<open>
  Claim C10: two files with the same file name, processed on the same date, get the same
  MEI artifact, whatever their bytes are: the artifact is the template filled with the
  file name and the date.
\<close>

theorem mei_independent_of_file_bytes:
  "(artifact (processFile_express env1 fileId1 filePath1 fileType1 w1) \<noteq> None
    \<and> artifact (processFile_express env2 fileId2 filePath2 fileType2 w2) \<noteq> None
    \<and> express_fileName filePath1 = express_fileName filePath2
    \<and> isodate env1 = isodate env2
    \<longrightarrow> artifact (processFile_express env1 fileId1 filePath1 fileType1 w1)
         = artifact (processFile_express env2 fileId2 filePath2 fileType2 w2)) \<and>
   (artifact (processFile_edge env1 fileId1 filePath1 fileType1 w1) \<noteq> None
    \<and> artifact (processFile_edge env2 fileId2 filePath2 fileType2 w2) \<noteq> None
    \<and> edge_fileName filePath1 = edge_fileName filePath2
    \<and> isodate env1 = isodate env2
    \<longrightarrow> artifact (processFile_edge env1 fileId1 filePath1 fileType1 w1)
         = artifact (processFile_edge env2 fileId2 filePath2 fileType2 w2))"
  using artifact_express_eq [of env1 fileId1 filePath1 fileType1 w1 env2 fileId2 filePath2 fileType2 w2]
    artifact_edge_eq [of env1 fileId1 filePath1 fileType1 w1 env2 fileId2 filePath2 fileType2 w2]
  by simp

theorem mei_independent_of_file_bytes_witness:
  "download_result (ok_env one_measure day1) \<noteq> download_result (ok_env two_measures day1_later)
   \<and> express_fileName ''u1/a.xml'' = express_fileName ''u2/a.xml''
   \<and> edge_fileName ''u1/a.xml'' = edge_fileName ''u2/a.xml''
   \<and> isodate (ok_env one_measure day1) = isodate (ok_env two_measures day1_later)
   \<and> artifact (processFile_express (ok_env one_measure day1) ''f1'' ''u1/a.xml'' ''musicxml''
        (world_of [sheet_of ''f1'' ''u1/a.xml'' processing])) \<noteq> None
   \<and> artifact (processFile_express (ok_env one_measure day1) ''f1'' ''u1/a.xml'' ''musicxml''
        (world_of [sheet_of ''f1'' ''u1/a.xml'' processing]))
     = artifact (processFile_express (ok_env two_measures day1_later) ''f2'' ''u2/a.xml'' ''musicxml''
        (world_of [sheet_of ''f2'' ''u2/a.xml'' processing]))
   \<and> artifact (processFile_edge (ok_env one_measure day1) ''f1'' ''u1/a.xml'' ''musicxml''
        (world_of [sheet_of ''f1'' ''u1/a.xml'' pending])) \<noteq> None
   \<and> artifact (processFile_edge (ok_env one_measure day1) ''f1'' ''u1/a.xml'' ''musicxml''
        (world_of [sheet_of ''f1'' ''u1/a.xml'' pending]))
     = artifact (processFile_edge (ok_env two_measures day1_later) ''f2'' ''u2/a.xml'' ''musicxml''
        (world_of [sheet_of ''f2'' ''u2/a.xml'' pending]))"
proof -
  have bytes: "download_result (ok_env one_measure day1) \<noteq> download_result (ok_env two_measures day1_later)"
    by (simp add: ok_env_def one_measure_def two_measures_def)
  have names: "express_fileName ''u1/a.xml'' = express_fileName ''u2/a.xml''"
      "edge_fileName ''u1/a.xml'' = edge_fileName ''u2/a.xml''"
    by (simp_all add: run_defs)
  have dates: "isodate (ok_env one_measure day1) = isodate (ok_env two_measures day1_later)"
    by (simp add: run_defs)
  have a: "artifact (processFile_express (ok_env one_measure day1) ''f1'' ''u1/a.xml'' ''musicxml''
        (world_of [sheet_of ''f1'' ''u1/a.xml'' processing])) \<noteq> None"
    by (simp add: run_defs)
  have b: "artifact (processFile_express (ok_env two_measures day1_later) ''f2'' ''u2/a.xml'' ''musicxml''
        (world_of [sheet_of ''f2'' ''u2/a.xml'' processing])) \<noteq> None"
    by (simp add: run_defs)
  have c: "artifact (processFile_edge (ok_env one_measure day1) ''f1'' ''u1/a.xml'' ''musicxml''
        (world_of [sheet_of ''f1'' ''u1/a.xml'' pending])) \<noteq> None"
    by (simp add: run_defs)
  have d: "artifact (processFile_edge (ok_env two_measures day1_later) ''f2'' ''u2/a.xml'' ''musicxml''
        (world_of [sheet_of ''f2'' ''u2/a.xml'' pending])) \<noteq> None"
    by (simp add: run_defs)
  from mei_independent_of_file_bytes [of "ok_env one_measure day1" "''f1''" "''u1/a.xml''" "''musicxml''"
      "world_of [sheet_of ''f1'' ''u1/a.xml'' processing]"
      "ok_env two_measures day1_later" "''f2''" "''u2/a.xml''" "''musicxml''"
      "world_of [sheet_of ''f2'' ''u2/a.xml'' processing]"] a b names dates
  have e: "artifact (processFile_express (ok_env one_measure day1) ''f1'' ''u1/a.xml'' ''musicxml''
        (world_of [sheet_of ''f1'' ''u1/a.xml'' processing]))
     = artifact (processFile_express (ok_env two_measures day1_later) ''f2'' ''u2/a.xml'' ''musicxml''
        (world_of [sheet_of ''f2'' ''u2/a.xml'' processing]))"
    by simp
  from mei_independent_of_file_bytes [of "ok_env one_measure day1" "''f1''" "''u1/a.xml''" "''musicxml''"
      "world_of [sheet_of ''f1'' ''u1/a.xml'' pending]"
      "ok_env two_measures day1_later" "''f2''" "''u2/a.xml''" "''musicxml''"
      "world_of [sheet_of ''f2'' ''u2/a.xml'' pending]"] c d names dates
  have f: "artifact (processFile_edge (ok_env one_measure day1) ''f1'' ''u1/a.xml'' ''musicxml''
        (world_of [sheet_of ''f1'' ''u1/a.xml'' pending]))
     = artifact (processFile_edge (ok_env two_measures day1_later) ''f2'' ''u2/a.xml'' ''musicxml''
        (world_of [sheet_of ''f2'' ''u2/a.xml'' pending]))"
    by simp
  from bytes names dates a c e f show ?thesis by simp
qed

section \<open>Claims about the conversion status\<close>

lemma ids_set_processing [simp]: "id (set_processing r) = id r"
  by (simp add: set_processing_def)

lemma ids_set_failed [simp]: "id (set_failed m r) = id r"
  by (simp add: set_failed_def)

lemma ids_set_completed [simp]: "id (set_completed p u r) = id r"
  by (simp add: set_completed_def)

lemma status_set_processing [simp]: "conversion_status (set_processing r) = Some processing"
  by (simp add: set_processing_def)

lemma status_set_failed [simp]: "conversion_status (set_failed m r) = Some failed"
  by (simp add: set_failed_def)

lemma status_set_completed [simp]: "conversion_status (set_completed p u r) = Some completed"
  by (simp add: set_completed_def)

lemma update_eq_id_ids:
  "(\<And>x. id (u x) = id x) \<Longrightarrow> map id (sheets (update_eq_id u fileId w)) = map id (sheets w)"
  by (simp add: update_eq_id_def)

lemma update_eq_id_bucket [simp]: "bucket (update_eq_id u fileId w) = bucket w"
  by (simp add: update_eq_id_def)

lemma in_update_eq_id:
  assumes "r \<in> set (sheets (update_eq_id u fileId w))" and "id r = fileId"
    and "\<And>x. id (u x) = id x"
  shows "\<exists>r0. r = u r0"
proof -
  from assms(1) obtain r0 where r: "r = (if id r0 = fileId then u r0 else r0)"
    unfolding update_eq_id_def by (auto simp del: if_image_distrib)
  show ?thesis
  proof (cases "id r0 = fileId")
    case True
    with r have "r = u r0" by simp
    then show ?thesis ..
  next
    case False
    with r assms(2) show ?thesis by simp
  qed
qed

lemma settled_update_completed: "settled_in fileId (update_eq_id (set_completed p u) fileId w)"
  unfolding settled_in_def
proof (intro ballI impI)
  fix r assume "r \<in> set (sheets (update_eq_id (set_completed p u) fileId w))" "id r = fileId"
  then obtain r0 where "r = set_completed p u r0"
    using in_update_eq_id [of r "set_completed p u" fileId w] by auto
  then show "conversion_status r = Some completed \<or> conversion_status r = Some failed" by simp
qed

lemma settled_update_failed: "settled_in fileId (update_eq_id (set_failed m) fileId w)"
  unfolding settled_in_def
proof (intro ballI impI)
  fix r assume "r \<in> set (sheets (update_eq_id (set_failed m) fileId w))" "id r = fileId"
  then obtain r0 where "r = set_failed m r0"
    using in_update_eq_id [of r "set_failed m" fileId w] by auto
  then show "conversion_status r = Some completed \<or> conversion_status r = Some failed" by simp
qed

lemma upload_and_complete_settled:
  "upload_and_complete env fileId p c w = (Inr r, w') \<Longrightarrow> settled_in fileId w'"
  by (auto simp: upload_and_complete_def Let_def settled_update_completed split: option.splits)

lemma express_try_settled:
  "express_try env fileId filePath w = (Inr r, w') \<Longrightarrow> settled_in fileId w'"
  by (auto simp: express_try_def split: option.splits sum.splits if_splits prod.splits
      dest: upload_and_complete_settled)

lemma processFile_express_settled:
  "processFile_express env fileId filePath fileType w = (Inr r, w') \<Longrightarrow> settled_in fileId w'"
  by (auto simp: processFile_express_def split: prod.splits sum.splits dest: express_try_settled)

lemma post_convert_accepted:
  assumes "req_fileId req \<noteq> []" "req_filePath req \<noteq> []" "status_update_error env = None"
  shows "post_convert env req w =
     (\<lparr>http_status = 200,
       body = JObject [(''success'', JBool True),
         (''message'', JString (''Processo de convers'' @ [CHR 0xE3] @ ''o iniciado com sucesso'')),
         (''fileId'', JString (req_fileId req)),
         (''status'', JString ''processing'')]\<rparr>,
      update_eq_id set_processing (req_fileId req) w)"
  using assms by (simp add: post_convert_def)

lemma post_convert_settled_settled:
  assumes "req_fileId req \<noteq> []" "req_filePath req \<noteq> []" "status_update_error env = None"
    "handler_failed_update_error env = None"
  shows "settled_in (req_fileId req) (post_convert_settled env req w)"
proof (cases "processFile_express env (req_fileId req) (req_filePath req) (req_fileType req)
                (update_eq_id set_processing (req_fileId req) w)")
  case (Pair res w')
  show ?thesis
  proof (cases res)
    case (Inl e)
    with Pair assms show ?thesis
      by (simp add: post_convert_settled_def record_failure_def settled_update_failed)
  next
    case (Inr r)
    with Pair assms processFile_express_settled [of env "req_fileId req" "req_filePath req"
        "req_fileType req" "update_eq_id set_processing (req_fileId req) w" r w']
    show ?thesis by (simp add: post_convert_settled_def)
  qed
qed

text \<open>
  Claim C1 says that a conversion request never moves a job that is completed or failed
  back to processing, except by creating a new job.  It fails: \<open>POST /convert\<close> for a file
  whose only row is completed leaves that one row in processing.
\<close>

theorem convert_request_overwrites_terminal_status:
  "map conversion_status (sheets (world_of [sheet_of ''f1'' ''u1/a.xml'' completed])) = [Some completed]
   \<and> map conversion_status (sheets (snd (post_convert (ok_env one_measure day1) req_f1
        (world_of [sheet_of ''f1'' ''u1/a.xml'' completed])))) = [Some processing]"
  by (simp add: post_convert_def req_f1_def run_defs)

text \<open>
  Claim C1 as amended: \<open>POST /convert\<close> with \<open>fileId\<close> and \<open>filePath\<close> present, when the
  backend accepts the status update, puts every row of that file in processing whatever
  its state was, creates no row and answers \<open>status: processing\<close>; and once the background
  conversion has settled, with the handler's write of \<open>failed\<close> accepted, every row of the
  file is completed or failed.
\<close>

theorem convert_request_resets_status:
  "req_fileId req \<noteq> [] \<and> req_filePath req \<noteq> [] \<and> status_update_error env = None \<longrightarrow>
     map id (sheets (snd (post_convert env req w))) = map id (sheets w)
     \<and> (\<forall>r \<in> set (sheets (snd (post_convert env req w))).
          id r = req_fileId req \<longrightarrow> conversion_status r = Some processing)
     \<and> json_field ''status'' (body (fst (post_convert env req w))) = Some (JString ''processing'')
     \<and> (handler_failed_update_error env = None \<longrightarrow>
          (\<forall>r \<in> set (sheets (post_convert_settled env req w)).
             id r = req_fileId req \<longrightarrow>
               conversion_status r = Some completed \<or> conversion_status r = Some failed))"
proof (intro impI, elim conjE)
  assume a: "req_fileId req \<noteq> []" "req_filePath req \<noteq> []" "status_update_error env = None"
  note pc = post_convert_accepted [OF a, of w]
  have 1: "map id (sheets (snd (post_convert env req w))) = map id (sheets w)"
    by (simp add: pc update_eq_id_ids)
  have 2: "\<forall>r \<in> set (sheets (snd (post_convert env req w))).
          id r = req_fileId req \<longrightarrow> conversion_status r = Some processing"
  proof (intro ballI impI)
    fix r assume "r \<in> set (sheets (snd (post_convert env req w)))" "id r = req_fileId req"
    then obtain r0 where "r = set_processing r0"
      using in_update_eq_id [of r set_processing "req_fileId req" w] by (auto simp: pc)
    then show "conversion_status r = Some processing" by simp
  qed
  have 3: "json_field ''status'' (body (fst (post_convert env req w))) = Some (JString ''processing'')"
    by (simp add: pc json_field_def)
  have 4: "handler_failed_update_error env = None \<longrightarrow>
          (\<forall>r \<in> set (sheets (post_convert_settled env req w)).
             id r = req_fileId req \<longrightarrow>
               conversion_status r = Some completed \<or> conversion_status r = Some failed)"
    using post_convert_settled_settled [OF a, of w] by (simp add: settled_in_def)
  from 1 2 3 4 show "map id (sheets (snd (post_convert env req w))) = map id (sheets w)
     \<and> (\<forall>r \<in> set (sheets (snd (post_convert env req w))).
          id r = req_fileId req \<longrightarrow> conversion_status r = Some processing)
     \<and> json_field ''status'' (body (fst (post_convert env req w))) = Some (JString ''processing'')
     \<and> (handler_failed_update_error env = None \<longrightarrow>
          (\<forall>r \<in> set (sheets (post_convert_settled env req w)).
             id r = req_fileId req \<longrightarrow>
               conversion_status r = Some completed \<or> conversion_status r = Some failed))"
    by (intro conjI)
qed

theorem convert_request_resets_status_witness:
  "req_fileId req_f1 \<noteq> [] \<and> req_filePath req_f1 \<noteq> []
   \<and> status_update_error (ok_env one_measure day1) = None
   \<and> handler_failed_update_error (ok_env one_measure day1) = None
   \<and> sheet_of ''f1'' ''u1/a.xml'' processing
        \<in> set (sheets (snd (post_convert (ok_env one_measure day1) req_f1
             (world_of [sheet_of ''f1'' ''u1/a.xml'' completed]))))
   \<and> map conversion_status (sheets (post_convert_settled (ok_env one_measure day1) req_f1
        (world_of [sheet_of ''f1'' ''u1/a.xml'' completed]))) = [Some completed]
   \<and> map id (sheets (snd (post_convert (ok_env one_measure day1) req_f1
        (world_of [sheet_of ''f1'' ''u1/a.xml'' completed])))) = [''f1'']
   \<and> json_field ''status'' (body (fst (post_convert (ok_env one_measure day1) req_f1
        (world_of [sheet_of ''f1'' ''u1/a.xml'' completed])))) = Some (JString ''processing'')"
proof -
  have h: "req_fileId req_f1 \<noteq> []" "req_filePath req_f1 \<noteq> []"
    "status_update_error (ok_env one_measure day1) = None"
    "handler_failed_update_error (ok_env one_measure day1) = None"
    by (simp_all add: req_f1_def ok_env_def)
  have m: "sheet_of ''f1'' ''u1/a.xml'' processing
        \<in> set (sheets (snd (post_convert (ok_env one_measure day1) req_f1
             (world_of [sheet_of ''f1'' ''u1/a.xml'' completed]))))"
    by (simp add: post_convert_def req_f1_def run_defs)
  have s: "map conversion_status (sheets (post_convert_settled (ok_env one_measure day1) req_f1
        (world_of [sheet_of ''f1'' ''u1/a.xml'' completed]))) = [Some completed]"
    by (simp add: post_convert_settled_def req_f1_def run_defs)
  have i: "map id (sheets (world_of [sheet_of ''f1'' ''u1/a.xml'' completed])) = [''f1'']"
    by (simp add: run_defs)
  from convert_request_resets_status [of req_f1 "ok_env one_measure day1"
      "world_of [sheet_of ''f1'' ''u1/a.xml'' completed]"] h m s i
  show ?thesis by simp
qed

text \<open>
  Claim C9 says that an error while removing the temporary files is only logged and never
  makes the job failed.  The edge function does that (\<open>edge_ignores_cleanup_error\<close> below), but
  in the Express service \<open>fs.rmSync\<close> sits inside the \<open>try\<close> block: when it throws, after
  the artifact is stored and the row is completed, the \<open>catch\<close> block marks the row failed.
\<close>

theorem express_cleanup_error_marks_failed:
  "fst (processFile_express ((ok_env one_measure day1)\<lparr>cleanup_error := Some cleanup_failure\<rparr>)
         ''f1'' ''u1/a.xml'' ''musicxml'' (world_of [sheet_of ''f1'' ''u1/a.xml'' processing]))
     = Inl cleanup_failure
   \<and> map conversion_status (sheets (snd (processFile_express
         ((ok_env one_measure day1)\<lparr>cleanup_error := Some cleanup_failure\<rparr>)
         ''f1'' ''u1/a.xml'' ''musicxml'' (world_of [sheet_of ''f1'' ''u1/a.xml'' processing]))))
     = [Some failed]
   \<and> map conversion_error (sheets (snd (processFile_express
         ((ok_env one_measure day1)\<lparr>cleanup_error := Some cleanup_failure\<rparr>)
         ''f1'' ''u1/a.xml'' ''musicxml'' (world_of [sheet_of ''f1'' ''u1/a.xml'' processing]))))
     = [Some ''EBUSY: resource busy or locked, rmdir temp/f1'']
   \<and> map mei_url (sheets (snd (processFile_express
         ((ok_env one_measure day1)\<lparr>cleanup_error := Some cleanup_failure\<rparr>)
         ''f1'' ''u1/a.xml'' ''musicxml'' (world_of [sheet_of ''f1'' ''u1/a.xml'' processing]))))
     = [Some ''u1/a.mei'']
   \<and> bucket (snd (processFile_express
         ((ok_env one_measure day1)\<lparr>cleanup_error := Some cleanup_failure\<rparr>)
         ''f1'' ''u1/a.xml'' ''musicxml'' (world_of [sheet_of ''f1'' ''u1/a.xml'' processing])))
        ''u1/a.mei''
     = Some (meiTemplate ''a.xml'' ''2024-01-01'')"
  by (simp add: run_defs cleanup_failure_def)

lemma edge_try_ignores_cleanup_error:
  "edge_try (env\<lparr>cleanup_error := c\<rparr>) fileId filePath w = edge_try env fileId filePath w"
  by (simp add: edge_try_def upload_and_complete_def isodate_def
      split: sum.splits option.splits)

lemma edge_ignores_cleanup_error:
  "processFile_edge (env\<lparr>cleanup_error := c\<rparr>) fileId filePath fileType w
   = processFile_edge env fileId filePath fileType w"
  by (simp add: processFile_edge_def edge_try_ignores_cleanup_error
      split: option.splits prod.splits sum.splits)

section \<open>Claims about the batch route\<close>

lemma upload_and_complete_fst:
  "fst (upload_and_complete env fileId p c w) = fst (upload_and_complete env fileId p c w')"
  by (simp add: upload_and_complete_def Let_def split: option.splits)

lemma edge_try_fst: "fst (edge_try env fileId filePath w) = fst (edge_try env fileId filePath w')"
  using upload_and_complete_fst [of env fileId _ _ w w']
  by (simp add: edge_try_def split: sum.splits option.splits)

lemma processFile_edge_fst:
  "fst (processFile_edge env fileId filePath fileType w)
   = fst (processFile_edge env fileId filePath fileType w')"
proof (cases "status_update_error env")
  case None
  obtain a b where ab: "edge_try env fileId filePath (update_eq_id set_processing fileId w) = (a, b)"
    by (cases "edge_try env fileId filePath (update_eq_id set_processing fileId w)")
  obtain a' b' where ab': "edge_try env fileId filePath (update_eq_id set_processing fileId w') = (a', b')"
    by (cases "edge_try env fileId filePath (update_eq_id set_processing fileId w')")
  from edge_try_fst [of env fileId filePath "update_eq_id set_processing fileId w"
      "update_eq_id set_processing fileId w'"] ab ab'
  have "a = a'" by simp
  with None ab ab' show ?thesis
    by (simp add: processFile_edge_def split: sum.splits)
next
  case (Some e)
  then show ?thesis by (simp add: processFile_edge_def)
qed

lemma convert_all_loop_results:
  "fst (convert_all_loop envs files acc w) = acc @ map (batch_entry envs w0) files"
proof (induction files arbitrary: acc w)
  case Nil
  then show ?case by simp
next
  case (Cons f fs)
  obtain res w' where run:
    "processFile_edge (envs (id f)) (id f) (file_url f) (file_type f) w = (res, w')"
    by (cases "processFile_edge (envs (id f)) (id f) (file_url f) (file_type f) w")
  from processFile_edge_fst [of "envs (id f)" "id f" "file_url f" "file_type f" w0 w] run
  have w0: "fst (processFile_edge (envs (id f)) (id f) (file_url f) (file_type f) w0) = res"
    by simp
  show ?case
  proof (cases res)
    case (Inl error)
    with run w0 Cons.IH show ?thesis by (simp add: batch_entry_def)
  next
    case (Inr result)
    with run w0 Cons.IH show ?thesis by (simp add: batch_entry_def)
  qed
qed

lemma serve_convert_all:
  assumes "req_method req = ''POST''" "supabaseUrl cfg \<noteq> []" "supabaseServiceKey cfg \<noteq> []"
    "js_includes (req_pathname req) ''/convert-all''" "query_error env = None"
    "pending_query w \<noteq> []"
  shows "fst (serve cfg env req w) =
     \<lparr>http_status = 200,
      body = JObject [(''message'', JString (''Processamento em lote conclu'' @ [CHR 0xED] @ ''do'')),
         (''results'', JArray (map (batch_entry (file_env env) w) (pending_query w)))]\<rparr>"
proof -
  obtain results w' where l: "convert_all_loop (file_env env) (pending_query w) [] w = (results, w')"
    by (cases "convert_all_loop (file_env env) (pending_query w) [] w")
  with convert_all_loop_results [of "file_env env" "pending_query w" "[]" w w]
  have "results = map (batch_entry (file_env env) w) (pending_query w)" by simp
  with l assms show ?thesis by (simp add: serve_def Let_def)
qed

lemma pending_query_bound: "length (pending_query w) \<le> 10"
  by (simp add: pending_query_def)

lemma filter_map_if_same:
  "(\<And>r. id (u r) = id r) \<Longrightarrow>
   filter (\<lambda>r. id r = i) (map (\<lambda>r. if id r = i then u r else r) xs)
   = map u (filter (\<lambda>r. id r = i) xs)"
  by (induction xs) simp_all

lemma filter_map_if_other:
  "(\<And>r. id (u r) = id r) \<Longrightarrow> x \<noteq> i \<Longrightarrow>
   filter (\<lambda>r. id r = x) (map (\<lambda>r. if id r = i then u r else r) xs)
   = filter (\<lambda>r. id r = x) xs"
  by (induction xs) simp_all

lemma rows_with_update_same:
  "(\<And>r. id (u r) = id r) \<Longrightarrow> rows_with i (update_eq_id u i w) = map u (rows_with i w)"
  by (simp add: rows_with_def update_eq_id_def filter_map_if_same)

lemma rows_with_update_other:
  "(\<And>r. id (u r) = id r) \<Longrightarrow> x \<noteq> i \<Longrightarrow> rows_with x (update_eq_id u i w) = rows_with x w"
  by (simp add: rows_with_def update_eq_id_def filter_map_if_other)

lemma rows_with_bucket [simp]: "rows_with x (w\<lparr>bucket := b\<rparr>) = rows_with x w"
  by (simp add: rows_with_def)

lemma sheets_bucket_update [simp]: "sheets (w\<lparr>bucket := b\<rparr>) = sheets w"
  by simp


lemma rows_with_record_failure_other:
  "x \<noteq> i \<Longrightarrow> rows_with x (record_failure e m i w) = rows_with x w"
  by (simp add: record_failure_def rows_with_update_other split: option.splits)

lemma rows_with_record_failure_same:
  "rows_with i (record_failure None m i w) = map (set_failed m) (rows_with i w)"
  by (simp add: record_failure_def rows_with_update_same)

lemma ids_record_failure: "map id (sheets (record_failure e m i w)) = map id (sheets w)"
  by (simp add: record_failure_def update_eq_id_ids split: option.splits)

lemma bucket_record_failure [simp]: "bucket (record_failure e m i w) = bucket w"
  by (simp add: record_failure_def split: option.splits)

lemma upload_and_complete_other:
  "x \<noteq> i \<Longrightarrow> rows_with x (snd (upload_and_complete env i p c w)) = rows_with x w"
  by (simp add: upload_and_complete_def Let_def rows_with_update_other split: option.splits)

lemma upload_and_complete_ids:
  "map id (sheets (snd (upload_and_complete env i p c w))) = map id (sheets w)"
  by (simp add: upload_and_complete_def Let_def update_eq_id_ids split: option.splits)

lemma upload_and_complete_keeps:
  "bucket w k \<noteq> None \<Longrightarrow> bucket (snd (upload_and_complete env i p c w)) k \<noteq> None"
  by (simp add: upload_and_complete_def Let_def split: option.splits)

lemma upload_and_complete_done:
  assumes "upload_and_complete env i p c w = (Inr result, w1)"
  shows "bucket w1 (fst result) \<noteq> None"
    and "rows_with i w1 = map (set_completed (fst result) (snd result)) (rows_with i w)"
  using assms
  by (auto simp: upload_and_complete_def Let_def rows_with_update_same split: option.splits)

lemma edge_try_other:
  "x \<noteq> i \<Longrightarrow> rows_with x (snd (edge_try env i p w)) = rows_with x w"
  by (simp add: edge_try_def upload_and_complete_other split: sum.splits option.splits)

lemma edge_try_ids: "map id (sheets (snd (edge_try env i p w))) = map id (sheets w)"
  by (simp add: edge_try_def upload_and_complete_ids split: sum.splits option.splits)

lemma edge_try_keeps:
  assumes "bucket w k \<noteq> None"
  shows "bucket (snd (edge_try env i p w)) k \<noteq> None"
  using assms upload_and_complete_keeps [OF assms, of env i "edge_meiFileName p"
      "meiTemplate (edge_fileName p) (isodate env)"]
  by (simp add: edge_try_def split: sum.splits option.splits)

lemma edge_try_done:
  assumes "edge_try env i p w = (Inr result, w1)"
  shows "bucket w1 (fst result) \<noteq> None"
    and "rows_with i w1 = map (set_completed (fst result) (snd result)) (rows_with i w)"
  using assms upload_and_complete_done [of env i _ _ w result w1]
  by (auto simp: edge_try_def split: sum.splits option.splits if_splits)


lemma processFile_edge_cases:
  obtains (refused) e where "status_update_error env = Some e"
      "processFile_edge env i p t w = (Inl e, w)"
  | (threw) error w1 where "status_update_error env = None"
      "edge_try env i p (update_eq_id set_processing i w) = (Inl error, w1)"
      "processFile_edge env i p t w
       = (Inl error, record_failure (failed_update_error env) (error_message error) i w1)"
  | (returned) result w1 where "status_update_error env = None"
      "edge_try env i p (update_eq_id set_processing i w) = (Inr result, w1)"
      "processFile_edge env i p t w = (Inr result, w1)"
proof (cases "status_update_error env")
  case None
  obtain a w1 where t: "edge_try env i p (update_eq_id set_processing i w) = (a, w1)"
    by (cases "edge_try env i p (update_eq_id set_processing i w)")
  show ?thesis
  proof (cases a)
    case (Inl error)
    with None t show ?thesis by (intro threw [of error w1]) (simp_all add: processFile_edge_def)
  next
    case (Inr result)
    with None t show ?thesis by (intro returned [of result w1]) (simp_all add: processFile_edge_def)
  qed
next
  case (Some e)
  then show ?thesis by (intro refused [of e]) (simp_all add: processFile_edge_def)
qed

lemma processFile_edge_other:
  assumes "x \<noteq> i"
  shows "rows_with x (snd (processFile_edge env i p t w)) = rows_with x w"
proof (cases rule: processFile_edge_cases [of env i p t w])
  case (refused e)
  then show ?thesis by simp
next
  case (threw error w1)
  from edge_try_other [OF assms, of env p "update_eq_id set_processing i w"] threw(2)
  have "rows_with x w1 = rows_with x w" by (simp add: rows_with_update_other assms)
  with threw(3) assms show ?thesis by (simp add: rows_with_record_failure_other)
next
  case (returned result w1)
  from edge_try_other [OF assms, of env p "update_eq_id set_processing i w"] returned(2)
  have "rows_with x w1 = rows_with x w" by (simp add: rows_with_update_other assms)
  with returned(3) show ?thesis by simp
qed

lemma processFile_edge_ids:
  "map id (sheets (snd (processFile_edge env i p t w))) = map id (sheets w)"
proof (cases rule: processFile_edge_cases [of env i p t w])
  case (refused e)
  then show ?thesis by simp
next
  case (threw error w1)
  from edge_try_ids [of env i p "update_eq_id set_processing i w"] threw(2)
  have "map id (sheets w1) = map id (sheets w)" by (simp add: update_eq_id_ids)
  with threw(3) show ?thesis by (simp add: ids_record_failure)
next
  case (returned result w1)
  from edge_try_ids [of env i p "update_eq_id set_processing i w"] returned(2)
  have "map id (sheets w1) = map id (sheets w)" by (simp add: update_eq_id_ids)
  with returned(3) show ?thesis by simp
qed

lemma processFile_edge_keeps:
  assumes "bucket w k \<noteq> None"
  shows "bucket (snd (processFile_edge env i p t w)) k \<noteq> None"
proof (cases rule: processFile_edge_cases [of env i p t w])
  case (refused e)
  with assms show ?thesis by simp
next
  case (threw error w1)
  from assms have "bucket (update_eq_id set_processing i w) k \<noteq> None" by simp
  from edge_try_keeps [OF this, of env i p] threw(2) threw(3) show ?thesis by simp
next
  case (returned result w1)
  from assms have "bucket (update_eq_id set_processing i w) k \<noteq> None" by simp
  from edge_try_keeps [OF this, of env i p] returned(2) returned(3) show ?thesis by simp
qed

lemma processFile_edge_done:
  assumes "processFile_edge env i p t w = (Inr result, w1)"
  shows "bucket w1 (fst result) \<noteq> None"
    and "\<forall>r \<in> set (rows_with i w1).
           conversion_status r = Some completed \<and> mei_url r = Some (fst result)"
proof -
  have "bucket w1 (fst result) \<noteq> None
        \<and> rows_with i w1
          = map (set_completed (fst result) (snd result))
              (rows_with i (update_eq_id set_processing i w))"
  proof (cases rule: processFile_edge_cases [of env i p t w])
    case (refused e)
    with assms show ?thesis by simp
  next
    case (threw error w2)
    with assms show ?thesis by simp
  next
    case (returned result' w2)
    with assms have "edge_try env i p (update_eq_id set_processing i w) = (Inr result, w1)"
      by simp
    from edge_try_done [OF this] show ?thesis by simp
  qed
  then show "bucket w1 (fst result) \<noteq> None"
    and "\<forall>r \<in> set (rows_with i w1).
           conversion_status r = Some completed \<and> mei_url r = Some (fst result)"
    by (auto simp: set_completed_def)
qed


lemma batch_step_cases:
  obtains (converted) result w1 where
      "processFile_edge (envs (id f)) (id f) (file_url f) (file_type f) w = (Inr result, w1)"
      "batch_step envs f w = w1"
  | (failed_file) error w1 where
      "processFile_edge (envs (id f)) (id f) (file_url f) (file_type f) w = (Inl error, w1)"
      "batch_step envs f w
       = record_failure (handler_failed_update_error (envs (id f))) (error_message error) (id f) w1"
proof -
  obtain a w1 where
    t: "processFile_edge (envs (id f)) (id f) (file_url f) (file_type f) w = (a, w1)"
    by (cases "processFile_edge (envs (id f)) (id f) (file_url f) (file_type f) w")
  show ?thesis
  proof (cases a)
    case (Inl error)
    with t show ?thesis by (intro failed_file [of error w1]) (simp_all add: batch_step_def)
  next
    case (Inr result)
    with t show ?thesis by (intro converted [of result w1]) (simp_all add: batch_step_def)
  qed
qed

lemma batch_step_other:
  assumes "x \<noteq> id f"
  shows "rows_with x (batch_step envs f w) = rows_with x w"
proof (cases rule: batch_step_cases [of envs f w])
  case (converted result w1)
  with processFile_edge_other [OF assms, of "envs (id f)" "file_url f" "file_type f" w]
  show ?thesis by simp
next
  case (failed_file error w1)
  with processFile_edge_other [OF assms, of "envs (id f)" "file_url f" "file_type f" w] assms
  show ?thesis by (simp add: rows_with_record_failure_other)
qed

lemma batch_step_ids: "map id (sheets (batch_step envs f w)) = map id (sheets w)"
proof (cases rule: batch_step_cases [of envs f w])
  case (converted result w1)
  with processFile_edge_ids [of "envs (id f)" "id f" "file_url f" "file_type f" w]
  show ?thesis by simp
next
  case (failed_file error w1)
  with processFile_edge_ids [of "envs (id f)" "id f" "file_url f" "file_type f" w]
  show ?thesis by (simp add: ids_record_failure)
qed

lemma batch_step_keeps:
  assumes "bucket w k \<noteq> None"
  shows "bucket (batch_step envs f w) k \<noteq> None"
proof (cases rule: batch_step_cases [of envs f w])
  case (converted result w1)
  with processFile_edge_keeps [OF assms, of "envs (id f)" "id f" "file_url f" "file_type f"]
  show ?thesis by simp
next
  case (failed_file error w1)
  with processFile_edge_keeps [OF assms, of "envs (id f)" "id f" "file_url f" "file_type f"]
  show ?thesis by simp
qed

lemma batch_step_converted:
  assumes "fst (processFile_edge (envs (id f)) (id f) (file_url f) (file_type f) w0) = Inr result"
  shows "bucket (batch_step envs f w) (fst result) \<noteq> None"
    and "\<forall>r \<in> set (rows_with (id f) (batch_step envs f w)).
           conversion_status r = Some completed \<and> mei_url r = Some (fst result)"
proof -
  from assms processFile_edge_fst [of "envs (id f)" "id f" "file_url f" "file_type f" w w0]
  have "fst (processFile_edge (envs (id f)) (id f) (file_url f) (file_type f) w) = Inr result"
    by simp
  then obtain w1 where
    run: "processFile_edge (envs (id f)) (id f) (file_url f) (file_type f) w = (Inr result, w1)"
    by (cases "processFile_edge (envs (id f)) (id f) (file_url f) (file_type f) w") simp
  then have "batch_step envs f w = w1" by (simp add: batch_step_def)
  with processFile_edge_done [OF run]
  show "bucket (batch_step envs f w) (fst result) \<noteq> None"
    and "\<forall>r \<in> set (rows_with (id f) (batch_step envs f w)).
           conversion_status r = Some completed \<and> mei_url r = Some (fst result)"
    by simp_all
qed

lemma batch_step_failed:
  assumes "fst (processFile_edge (envs (id f)) (id f) (file_url f) (file_type f) w0) = Inl error"
    and "handler_failed_update_error (envs (id f)) = None"
  shows "\<forall>r \<in> set (rows_with (id f) (batch_step envs f w)).
           conversion_status r = Some failed \<and> conversion_error r = Some (error_message error)"
proof -
  from assms(1) processFile_edge_fst [of "envs (id f)" "id f" "file_url f" "file_type f" w w0]
  have "fst (processFile_edge (envs (id f)) (id f) (file_url f) (file_type f) w) = Inl error"
    by simp
  then obtain w1 where
    run: "processFile_edge (envs (id f)) (id f) (file_url f) (file_type f) w = (Inl error, w1)"
    by (cases "processFile_edge (envs (id f)) (id f) (file_url f) (file_type f) w") simp
  with assms(2) have "batch_step envs f w = record_failure None (error_message error) (id f) w1"
    by (simp add: batch_step_def)
  then show ?thesis
    by (auto simp: rows_with_record_failure_same set_failed_def)
qed

lemma loop_world:
  "snd (convert_all_loop envs files acc w) = foldl (\<lambda>w f. batch_step envs f w) w files"
proof (induction files arbitrary: acc w)
  case Nil
  then show ?case by simp
next
  case (Cons f fs)
  show ?case
  proof (cases rule: batch_step_cases [of envs f w])
    case (converted result w1)
    with Cons.IH show ?thesis by simp
  next
    case (failed_file error w1)
    with Cons.IH show ?thesis by simp
  qed
qed

lemma batch_other:
  "x \<notin> set (map id files) \<Longrightarrow>
   rows_with x (foldl (\<lambda>w f. batch_step envs f w) w files) = rows_with x w"
  by (induction files arbitrary: w) (auto simp: batch_step_other)

lemma batch_ids:
  "map id (sheets (foldl (\<lambda>w f. batch_step envs f w) w files)) = map id (sheets w)"
  by (induction files arbitrary: w) (simp_all add: batch_step_ids)

lemma batch_keeps:
  "bucket w k \<noteq> None \<Longrightarrow> bucket (foldl (\<lambda>w f. batch_step envs f w) w files) k \<noteq> None"
proof (induction files arbitrary: w)
  case Nil
  then show ?case by simp
next
  case (Cons f fs)
  from Cons.IH [OF batch_step_keeps [OF Cons.prems, of envs f]] show ?case by simp
qed


lemma batch_converted:
  assumes "distinct (map id files)" and "f \<in> set files"
    and "fst (processFile_edge (envs (id f)) (id f) (file_url f) (file_type f) w0) = Inr result"
  shows "bucket (foldl (\<lambda>w f. batch_step envs f w) w files) (fst result) \<noteq> None
         \<and> (\<forall>r \<in> set (rows_with (id f) (foldl (\<lambda>w f. batch_step envs f w) w files)).
               conversion_status r = Some completed \<and> mei_url r = Some (fst result))"
  using assms(1,2)
proof (induction files arbitrary: w)
  case Nil
  then show ?case by simp
next
  case (Cons g gs)
  show ?case
  proof (cases "f = g")
    case True
    with Cons.prems have "id f \<notin> set (map id gs)" by simp
    from batch_other [OF this, of envs "batch_step envs f w"]
      batch_keeps [OF batch_step_converted(1) [of envs f w0 result w, OF assms(3)], of envs gs]
      batch_step_converted(2) [of envs f w0 result w, OF assms(3)] True
    show ?thesis by simp
  next
    case False
    with Cons.prems have "distinct (map id gs)" "f \<in> set gs" by simp_all
    from Cons.IH [OF this, of "batch_step envs g w"] show ?thesis by simp
  qed
qed

lemma batch_failed:
  assumes "distinct (map id files)" and "f \<in> set files"
    and "fst (processFile_edge (envs (id f)) (id f) (file_url f) (file_type f) w0) = Inl error"
    and "handler_failed_update_error (envs (id f)) = None"
  shows "\<forall>r \<in> set (rows_with (id f) (foldl (\<lambda>w f. batch_step envs f w) w files)).
           conversion_status r = Some failed \<and> conversion_error r = Some (error_message error)"
  using assms(1,2)
proof (induction files arbitrary: w)
  case Nil
  then show ?case by simp
next
  case (Cons g gs)
  show ?case
  proof (cases "f = g")
    case True
    with Cons.prems have "id f \<notin> set (map id gs)" by simp
    from batch_other [OF this, of envs "batch_step envs f w"]
      batch_step_failed [of envs f w0 error w, OF assms(3,4)] True
    show ?thesis by simp
  next
    case False
    with Cons.prems have "distinct (map id gs)" "f \<in> set gs" by simp_all
    from Cons.IH [OF this, of "batch_step envs g w"] show ?thesis by simp
  qed
qed

lemma serve_convert_all_world:
  assumes "req_method req = ''POST''" "supabaseUrl cfg \<noteq> []" "supabaseServiceKey cfg \<noteq> []"
    "js_includes (req_pathname req) ''/convert-all''" "query_error env = None"
    "pending_query w \<noteq> []"
  shows "snd (serve cfg env req w)
         = foldl (\<lambda>w f. batch_step (file_env env) f w) w (pending_query w)"
proof -
  obtain results w' where l: "convert_all_loop (file_env env) (pending_query w) [] w = (results, w')"
    by (cases "convert_all_loop (file_env env) (pending_query w) [] w")
  with loop_world [of "file_env env" "pending_query w" "[]" w]
  have "w' = foldl (\<lambda>w f. batch_step (file_env env) f w) w (pending_query w)" by simp
  with l assms show ?thesis by (simp add: serve_def Let_def)
qed

lemma batch_response:
  "req_method req = ''POST'' \<and> supabaseUrl cfg \<noteq> [] \<and> supabaseServiceKey cfg \<noteq> []
   \<and> js_includes (req_pathname req) ''/convert-all'' \<and> query_error env = None
   \<and> pending_query w \<noteq> [] \<longrightarrow>
   (\<exists>results.
      json_field ''results'' (body (fst (serve cfg env req w))) = Some (JArray results)
      \<and> length results \<le> 10
      \<and> length results = length (pending_query w)
      \<and> (\<forall>i < length results.
           json_field ''fileId'' (results ! i) = Some (JString (id (pending_query w ! i)))
           \<and> (\<forall>error.
                fst (processFile_edge (file_env env (id (pending_query w ! i)))
                       (id (pending_query w ! i)) (file_url (pending_query w ! i))
                       (file_type (pending_query w ! i)) w) = Inl error
                \<longrightarrow> results ! i =
                      JObject [(''fileId'', JString (id (pending_query w ! i))),
                               (''success'', JBool False),
                               (''error'', JString (error_message error))])
           \<and> (\<forall>result.
                fst (processFile_edge (file_env env (id (pending_query w ! i)))
                       (id (pending_query w ! i)) (file_url (pending_query w ! i))
                       (file_type (pending_query w ! i)) w) = Inr result
                \<longrightarrow> results ! i =
                      JObject [(''fileId'', JString (id (pending_query w ! i))),
                               (''success'', JBool True),
                               (''result'', result_json result)])))"
proof (intro impI, elim conjE)
  assume a: "req_method req = ''POST''" "supabaseUrl cfg \<noteq> []" "supabaseServiceKey cfg \<noteq> []"
    "js_includes (req_pathname req) ''/convert-all''" "query_error env = None"
    "pending_query w \<noteq> []"
  let ?results = "map (batch_entry (file_env env) w) (pending_query w)"
  have 1: "json_field ''results'' (body (fst (serve cfg env req w))) = Some (JArray ?results)"
    by (simp add: serve_convert_all [OF a] json_field_def)
  have 2: "length ?results \<le> 10" by (simp add: pending_query_bound)
  have 3: "length ?results = length (pending_query w)" by simp
  have 4: "\<forall>i < length ?results.
           json_field ''fileId'' (?results ! i) = Some (JString (id (pending_query w ! i)))
           \<and> (\<forall>error.
                fst (processFile_edge (file_env env (id (pending_query w ! i)))
                       (id (pending_query w ! i)) (file_url (pending_query w ! i))
                       (file_type (pending_query w ! i)) w) = Inl error
                \<longrightarrow> ?results ! i =
                      JObject [(''fileId'', JString (id (pending_query w ! i))),
                               (''success'', JBool False),
                               (''error'', JString (error_message error))])
           \<and> (\<forall>result.
                fst (processFile_edge (file_env env (id (pending_query w ! i)))
                       (id (pending_query w ! i)) (file_url (pending_query w ! i))
                       (file_type (pending_query w ! i)) w) = Inr result
                \<longrightarrow> ?results ! i =
                      JObject [(''fileId'', JString (id (pending_query w ! i))),
                               (''success'', JBool True),
                               (''result'', result_json result)])"
    by (simp add: batch_entry_def json_field_def success_entry_def failure_entry_def
        split: sum.splits)
  from 1 2 3 4 show "\<exists>results.
      json_field ''results'' (body (fst (serve cfg env req w))) = Some (JArray results)
      \<and> length results \<le> 10
      \<and> length results = length (pending_query w)
      \<and> (\<forall>i < length results.
           json_field ''fileId'' (results ! i) = Some (JString (id (pending_query w ! i)))
           \<and> (\<forall>error.
                fst (processFile_edge (file_env env (id (pending_query w ! i)))
                       (id (pending_query w ! i)) (file_url (pending_query w ! i))
                       (file_type (pending_query w ! i)) w) = Inl error
                \<longrightarrow> results ! i =
                      JObject [(''fileId'', JString (id (pending_query w ! i))),
                               (''success'', JBool False),
                               (''error'', JString (error_message error))])
           \<and> (\<forall>result.
                fst (processFile_edge (file_env env (id (pending_query w ! i)))
                       (id (pending_query w ! i)) (file_url (pending_query w ! i))
                       (file_type (pending_query w ! i)) w) = Inr result
                \<longrightarrow> results ! i =
                      JObject [(''fileId'', JString (id (pending_query w ! i))),
                               (''success'', JBool True),
                               (''result'', result_json result)]))"
    by (intro exI [of _ ?results] conjI)
qed

lemma batch_backend:
  "req_method req = ''POST'' \<and> supabaseUrl cfg \<noteq> [] \<and> supabaseServiceKey cfg \<noteq> []
   \<and> js_includes (req_pathname req) ''/convert-all'' \<and> query_error env = None
   \<and> pending_query w \<noteq> [] \<longrightarrow>
   map id (sheets (snd (serve cfg env req w))) = map id (sheets w)
   \<and> (\<forall>x. x \<notin> set (map id (pending_query w)) \<longrightarrow>
          rows_with x (snd (serve cfg env req w)) = rows_with x w)
   \<and> (distinct (map id (pending_query w)) \<longrightarrow>
        (\<forall>f \<in> set (pending_query w).
           (\<forall>result.
              fst (processFile_edge (file_env env (id f)) (id f) (file_url f) (file_type f) w)
                = Inr result
              \<longrightarrow> bucket (snd (serve cfg env req w)) (fst result) \<noteq> None
                  \<and> (\<forall>r \<in> set (rows_with (id f) (snd (serve cfg env req w))).
                        conversion_status r = Some completed \<and> mei_url r = Some (fst result)))
           \<and> (\<forall>error.
                fst (processFile_edge (file_env env (id f)) (id f) (file_url f) (file_type f) w)
                  = Inl error
                \<and> handler_failed_update_error (file_env env (id f)) = None
                \<longrightarrow> (\<forall>r \<in> set (rows_with (id f) (snd (serve cfg env req w))).
                        conversion_status r = Some failed
                        \<and> conversion_error r = Some (error_message error)))))"
proof (intro impI, elim conjE)
  assume a: "req_method req = ''POST''" "supabaseUrl cfg \<noteq> []" "supabaseServiceKey cfg \<noteq> []"
    "js_includes (req_pathname req) ''/convert-all''" "query_error env = None"
    "pending_query w \<noteq> []"
  note sw = serve_convert_all_world [OF a]
  show "map id (sheets (snd (serve cfg env req w))) = map id (sheets w)
   \<and> (\<forall>x. x \<notin> set (map id (pending_query w)) \<longrightarrow>
          rows_with x (snd (serve cfg env req w)) = rows_with x w)
   \<and> (distinct (map id (pending_query w)) \<longrightarrow>
        (\<forall>f \<in> set (pending_query w).
           (\<forall>result.
              fst (processFile_edge (file_env env (id f)) (id f) (file_url f) (file_type f) w)
                = Inr result
              \<longrightarrow> bucket (snd (serve cfg env req w)) (fst result) \<noteq> None
                  \<and> (\<forall>r \<in> set (rows_with (id f) (snd (serve cfg env req w))).
                        conversion_status r = Some completed \<and> mei_url r = Some (fst result)))
           \<and> (\<forall>error.
                fst (processFile_edge (file_env env (id f)) (id f) (file_url f) (file_type f) w)
                  = Inl error
                \<and> handler_failed_update_error (file_env env (id f)) = None
                \<longrightarrow> (\<forall>r \<in> set (rows_with (id f) (snd (serve cfg env req w))).
                        conversion_status r = Some failed
                        \<and> conversion_error r = Some (error_message error)))))"
    unfolding sw
    using batch_ids [of "file_env env" w "pending_query w"]
      batch_other [of _ "pending_query w" "file_env env" w]
      batch_converted [of "pending_query w" _ "file_env env" w _ w]
      batch_failed [of "pending_query w" _ "file_env env" w _ w]
    by blast
qed

text \<open>
  Claim C8: a batch run handles at most ten pending files, and a failure on one file does
  not stop the batch.  In the response, the result list has one entry per selected file,
  in order, and the entry of a file whose conversion throws is
  \<open>{fileId, success: false, error}\<close>.  In the backend, no row is added or removed and the
  rows of the files that were not selected are as before; and, the selected rows having
  distinct ids, every selected file has been processed: a file whose conversion returns
  has its artifact in the bucket and its rows completed with the path of the artifact, and
  a file whose conversion throws has its rows failed with the error message (when the
  write of the loop's \<open>catch\<close> is accepted), whatever happened to the files before it.
\<close>

theorem batch_bounded_and_isolated:
  "req_method req = ''POST'' \<and> supabaseUrl cfg \<noteq> [] \<and> supabaseServiceKey cfg \<noteq> []
   \<and> js_includes (req_pathname req) ''/convert-all'' \<and> query_error env = None
   \<and> pending_query w \<noteq> [] \<longrightarrow>
   ((\<exists>results.
      json_field ''results'' (body (fst (serve cfg env req w))) = Some (JArray results)
      \<and> length results \<le> 10
      \<and> length results = length (pending_query w)
      \<and> (\<forall>i < length results.
           json_field ''fileId'' (results ! i) = Some (JString (id (pending_query w ! i)))
           \<and> (\<forall>error.
                fst (processFile_edge (file_env env (id (pending_query w ! i)))
                       (id (pending_query w ! i)) (file_url (pending_query w ! i))
                       (file_type (pending_query w ! i)) w) = Inl error
                \<longrightarrow> results ! i =
                      JObject [(''fileId'', JString (id (pending_query w ! i))),
                               (''success'', JBool False),
                               (''error'', JString (error_message error))])
           \<and> (\<forall>result.
                fst (processFile_edge (file_env env (id (pending_query w ! i)))
                       (id (pending_query w ! i)) (file_url (pending_query w ! i))
                       (file_type (pending_query w ! i)) w) = Inr result
                \<longrightarrow> results ! i =
                      JObject [(''fileId'', JString (id (pending_query w ! i))),
                               (''success'', JBool True),
                               (''result'', result_json result)]))))
   \<and> map id (sheets (snd (serve cfg env req w))) = map id (sheets w)
   \<and> (\<forall>x. x \<notin> set (map id (pending_query w)) \<longrightarrow>
          rows_with x (snd (serve cfg env req w)) = rows_with x w)
   \<and> (distinct (map id (pending_query w)) \<longrightarrow>
        (\<forall>f \<in> set (pending_query w).
           (\<forall>result.
              fst (processFile_edge (file_env env (id f)) (id f) (file_url f) (file_type f) w)
                = Inr result
              \<longrightarrow> bucket (snd (serve cfg env req w)) (fst result) \<noteq> None
                  \<and> (\<forall>r \<in> set (rows_with (id f) (snd (serve cfg env req w))).
                        conversion_status r = Some completed \<and> mei_url r = Some (fst result)))
           \<and> (\<forall>error.
                fst (processFile_edge (file_env env (id f)) (id f) (file_url f) (file_type f) w)
                  = Inl error
                \<and> handler_failed_update_error (file_env env (id f)) = None
                \<longrightarrow> (\<forall>r \<in> set (rows_with (id f) (snd (serve cfg env req w))).
                        conversion_status r = Some failed
                        \<and> conversion_error r = Some (error_message error)))))"
  (is "?H \<longrightarrow> ?R \<and> ?B")
proof (rule impI)
  assume h: ?H
  from batch_response [of req cfg env w] h have r: ?R by (rule mp)
  from batch_backend [of req cfg env w] h have b: ?B by (rule mp)
  from r b show "?R \<and> ?B" by (rule conjI)
qed

text \<open>
  Claim C7 says that the batch route, finding no pending file, answers
  \<open>{message: "no pending files", results: []}\<close>.  It fails: the answer has no \<open>results\<close> key,
  and the message is the Portuguese sentence of the source.
\<close>

theorem no_pending_response_has_no_results:
  "pending_query (world_of []) = []
   \<and> json_field ''results'' (body (fst (serve demo_cfg first_fails convert_all_req (world_of [])))) = None
   \<and> json_field ''message'' (body (fst (serve demo_cfg first_fails convert_all_req (world_of []))))
       = Some (JString no_pending_message)"
  by (simp add: serve_def pending_query_def world_of_def demo_cfg_def first_fails_def
      convert_all_req_def json_field_def)

text \<open>
  Claim C7 as amended: the batch route, finding no pending file, answers with status 200
  and the body \<open>{message: "Nenhum arquivo pendente para conversao"}\<close> (with its tilde), and
  changes nothing.
\<close>

theorem no_pending_response:
  "req_method req = ''POST'' \<and> supabaseUrl cfg \<noteq> [] \<and> supabaseServiceKey cfg \<noteq> []
   \<and> js_includes (req_pathname req) ''/convert-all'' \<and> query_error env = None
   \<and> pending_query w = [] \<longrightarrow>
   serve cfg env req w =
     (\<lparr>http_status = 200, body = JObject [(''message'', JString no_pending_message)]\<rparr>, w)"
  by (simp add: serve_def)

theorem no_pending_response_witness:
  "req_method convert_all_req = ''POST'' \<and> supabaseUrl demo_cfg \<noteq> []
   \<and> supabaseServiceKey demo_cfg \<noteq> []
   \<and> js_includes (req_pathname convert_all_req) ''/convert-all''
   \<and> query_error first_fails = None
   \<and> pending_query (world_of [sheet_of ''f3'' ''u1/c.xml'' completed]) = []
   \<and> serve demo_cfg first_fails convert_all_req (world_of [sheet_of ''f3'' ''u1/c.xml'' completed]) =
     (\<lparr>http_status = 200, body = JObject [(''message'', JString no_pending_message)]\<rparr>,
      world_of [sheet_of ''f3'' ''u1/c.xml'' completed])"
proof -
  have h: "req_method convert_all_req = ''POST''" "supabaseUrl demo_cfg \<noteq> []"
    "supabaseServiceKey demo_cfg \<noteq> []"
    "js_includes (req_pathname convert_all_req) ''/convert-all''"
    "query_error first_fails = None"
    "pending_query (world_of [sheet_of ''f3'' ''u1/c.xml'' completed]) = []"
    by (simp_all add: convert_all_req_def demo_cfg_def first_fails_def pending_query_def
        world_of_def sheet_of_def)
  from no_pending_response [of convert_all_req demo_cfg first_fails
      "world_of [sheet_of ''f3'' ''u1/c.xml'' completed]"] h
  show ?thesis by simp
qed

lemma sample_pending: "pending_query three_rows
   = [sheet_of ''f1'' ''u1/a.xml'' pending, sheet_of ''f2'' ''u1/b.xml'' pending]"
  by (simp add: pending_query_def three_rows_def world_of_def sheet_of_def)

lemma sample_first_fails:
  "fst (processFile_edge (file_env first_fails ''f1'') ''f1'' ''u1/a.xml'' ''musicxml'' three_rows)
   = Inl (Error_instance ''Erro ao baixar arquivo: Object not found'')"
  by (simp add: first_fails_def storage_down_def three_rows_def run_defs)

lemma sample_second_converts:
  "fst (processFile_edge (file_env first_fails ''f2'') ''f2'' ''u1/b.xml'' ''musicxml'' three_rows)
   = Inr (''u1/b.mei'', None)"
  by (simp add: first_fails_def storage_down_def three_rows_def run_defs)

lemma sample_distinct: "distinct (map id (pending_query three_rows))"
  by (simp add: sample_pending sheet_of_def)

lemma sample_handler_write:
  "handler_failed_update_error (file_env first_fails ''f1'') = None"
  by (simp add: first_fails_def ok_env_def)

lemma sample_rows:
  "length (rows_with ''f1'' (snd (serve demo_cfg first_fails convert_all_req three_rows))) = 1"
  "length (rows_with ''f2'' (snd (serve demo_cfg first_fails convert_all_req three_rows))) = 1"
  "rows_with ''f3'' three_rows = [sheet_of ''f3'' ''u1/c.xml'' completed]"
  by (simp_all add: rows_with_def serve_def pending_query_def batch_step_def convert_all_req_def
      demo_cfg_def first_fails_def storage_down_def three_rows_def run_defs)

lemma download_error_without_message:
  "fst (edge_try (env\<lparr>download_result := Inl (Other_value None)\<rparr>) fileId filePath w)
   = Inl (Error_instance ''Erro ao baixar arquivo: undefined'')"
  by (simp add: edge_try_def interpolate_def)

theorem batch_bounded_and_isolated_witness:
  "req_method convert_all_req = ''POST'' \<and> supabaseUrl demo_cfg \<noteq> []
   \<and> supabaseServiceKey demo_cfg \<noteq> []
   \<and> js_includes (req_pathname convert_all_req) ''/convert-all''
   \<and> query_error first_fails = None
   \<and> pending_query three_rows \<noteq> []
   \<and> distinct (map id (pending_query three_rows))
   \<and> handler_failed_update_error (file_env first_fails ''f1'') = None
   \<and> json_field ''results'' (body (fst (serve demo_cfg first_fails convert_all_req three_rows)))
       = Some (JArray
           [JObject [(''fileId'', JString ''f1''), (''success'', JBool False),
                     (''error'', JString ''Erro ao baixar arquivo: Object not found'')],
            JObject [(''fileId'', JString ''f2''), (''success'', JBool True),
                     (''result'', JObject [(''mei_url'', JString ''u1/b.mei''),
                                           (''public_url'', JNull)])]])
   \<and> map id (sheets (snd (serve demo_cfg first_fails convert_all_req three_rows)))
       = [''f1'', ''f3'', ''f2'']
   \<and> rows_with ''f3'' (snd (serve demo_cfg first_fails convert_all_req three_rows))
       = [sheet_of ''f3'' ''u1/c.xml'' completed]
   \<and> map conversion_status
         (rows_with ''f1'' (snd (serve demo_cfg first_fails convert_all_req three_rows)))
       = [Some failed]
   \<and> map conversion_error
         (rows_with ''f1'' (snd (serve demo_cfg first_fails convert_all_req three_rows)))
       = [Some ''Erro ao baixar arquivo: Object not found'']
   \<and> map conversion_status
         (rows_with ''f2'' (snd (serve demo_cfg first_fails convert_all_req three_rows)))
       = [Some completed]
   \<and> map mei_url
         (rows_with ''f2'' (snd (serve demo_cfg first_fails convert_all_req three_rows)))
       = [Some ''u1/b.mei'']
   \<and> bucket (snd (serve demo_cfg first_fails convert_all_req three_rows)) ''u1/b.mei'' \<noteq> None"
proof -
  let ?w' = "snd (serve demo_cfg first_fails convert_all_req three_rows)"
  have h: "req_method convert_all_req = ''POST''" "supabaseUrl demo_cfg \<noteq> []"
    "supabaseServiceKey demo_cfg \<noteq> []"
    "js_includes (req_pathname convert_all_req) ''/convert-all''"
    "query_error first_fails = None"
    "pending_query three_rows \<noteq> []"
    by (simp_all add: convert_all_req_def demo_cfg_def first_fails_def sample_pending)
  then have H: "req_method convert_all_req = ''POST'' \<and> supabaseUrl demo_cfg \<noteq> []
     \<and> supabaseServiceKey demo_cfg \<noteq> []
     \<and> js_includes (req_pathname convert_all_req) ''/convert-all''
     \<and> query_error first_fails = None
     \<and> pending_query three_rows \<noteq> []"
    by (intro conjI)
  note T = batch_bounded_and_isolated [of convert_all_req demo_cfg first_fails three_rows,
      THEN mp, OF H]
  from T obtain results where r: "json_field ''results''
        (body (fst (serve demo_cfg first_fails convert_all_req three_rows))) = Some (JArray results)"
    and len: "length results = length (pending_query three_rows)"
    and each: "\<forall>i < length results.
           json_field ''fileId'' (results ! i) = Some (JString (id (pending_query three_rows ! i)))
           \<and> (\<forall>error.
                fst (processFile_edge (file_env first_fails (id (pending_query three_rows ! i)))
                       (id (pending_query three_rows ! i)) (file_url (pending_query three_rows ! i))
                       (file_type (pending_query three_rows ! i)) three_rows) = Inl error
                \<longrightarrow> results ! i =
                      JObject [(''fileId'', JString (id (pending_query three_rows ! i))),
                               (''success'', JBool False),
                               (''error'', JString (error_message error))])
           \<and> (\<forall>result.
                fst (processFile_edge (file_env first_fails (id (pending_query three_rows ! i)))
                       (id (pending_query three_rows ! i)) (file_url (pending_query three_rows ! i))
                       (file_type (pending_query three_rows ! i)) three_rows) = Inr result
                \<longrightarrow> results ! i =
                      JObject [(''fileId'', JString (id (pending_query three_rows ! i))),
                               (''success'', JBool True),
                               (''result'', result_json result)])"
    by blast
  from len have l2: "length results = 2" by (simp add: sample_pending)
  from each l2 have "results ! 0 = JObject [(''fileId'', JString ''f1''), (''success'', JBool False),
                     (''error'', JString ''Erro ao baixar arquivo: Object not found'')]"
    using sample_first_fails by (simp add: sample_pending sheet_of_def error_message_def)
  moreover from each l2 have "results ! 1 = JObject [(''fileId'', JString ''f2''), (''success'', JBool True),
                     (''result'', JObject [(''mei_url'', JString ''u1/b.mei''),
                                           (''public_url'', JNull)])]"
    using sample_second_converts by (simp add: sample_pending sheet_of_def result_json_def)
  ultimately have "results =
           [JObject [(''fileId'', JString ''f1''), (''success'', JBool False),
                     (''error'', JString ''Erro ao baixar arquivo: Object not found'')],
            JObject [(''fileId'', JString ''f2''), (''success'', JBool True),
                     (''result'', JObject [(''mei_url'', JString ''u1/b.mei''),
                                           (''public_url'', JNull)])]]"
    using l2 by (intro nth_equalityI) (auto simp: less_Suc_eq numeral_2_eq_2)
  with r have response: "json_field ''results''
        (body (fst (serve demo_cfg first_fails convert_all_req three_rows)))
       = Some (JArray
           [JObject [(''fileId'', JString ''f1''), (''success'', JBool False),
                     (''error'', JString ''Erro ao baixar arquivo: Object not found'')],
            JObject [(''fileId'', JString ''f2''), (''success'', JBool True),
                     (''result'', JObject [(''mei_url'', JString ''u1/b.mei''),
                                           (''public_url'', JNull)])]])"
    by simp
  from T have ids: "map id (sheets ?w') = map id (sheets three_rows)" by blast
  then have ids': "map id (sheets ?w') = [''f1'', ''f3'', ''f2'']"
    by (simp add: three_rows_def world_of_def sheet_of_def)
  from T have other: "\<forall>x. x \<notin> set (map id (pending_query three_rows)) \<longrightarrow>
          rows_with x ?w' = rows_with x three_rows"
    by blast
  then have f3: "rows_with ''f3'' ?w' = [sheet_of ''f3'' ''u1/c.xml'' completed]"
    by (simp add: sample_pending sheet_of_def sample_rows(3) [unfolded sheet_of_def])
  from T sample_distinct have sel: "\<forall>f \<in> set (pending_query three_rows).
           (\<forall>result.
              fst (processFile_edge (file_env first_fails (id f)) (id f) (file_url f) (file_type f)
                     three_rows) = Inr result
              \<longrightarrow> bucket ?w' (fst result) \<noteq> None
                  \<and> (\<forall>r \<in> set (rows_with (id f) ?w').
                        conversion_status r = Some completed \<and> mei_url r = Some (fst result)))
           \<and> (\<forall>error.
                fst (processFile_edge (file_env first_fails (id f)) (id f) (file_url f) (file_type f)
                       three_rows) = Inl error
                \<and> handler_failed_update_error (file_env first_fails (id f)) = None
                \<longrightarrow> (\<forall>r \<in> set (rows_with (id f) ?w').
                        conversion_status r = Some failed
                        \<and> conversion_error r = Some (error_message error)))"
    by blast
  have m1: "sheet_of ''f1'' ''u1/a.xml'' pending \<in> set (pending_query three_rows)"
    and m2: "sheet_of ''f2'' ''u1/b.xml'' pending \<in> set (pending_query three_rows)"
    by (simp_all add: sample_pending)
  from sel m1 sample_first_fails sample_handler_write
  have f1: "\<forall>r \<in> set (rows_with ''f1'' ?w').
         conversion_status r = Some failed
         \<and> conversion_error r = Some ''Erro ao baixar arquivo: Object not found''"
    by (simp add: sheet_of_def error_message_def)
  from sel m2 sample_second_converts
  have f2: "bucket ?w' ''u1/b.mei'' \<noteq> None
       \<and> (\<forall>r \<in> set (rows_with ''f2'' ?w').
             conversion_status r = Some completed \<and> mei_url r = Some ''u1/b.mei'')"
    by (simp add: sheet_of_def)
  from sample_rows(1) obtain r1 where r1: "rows_with ''f1'' ?w' = [r1]"
    by (cases "rows_with ''f1'' ?w'") simp_all
  from sample_rows(2) obtain r2 where r2: "rows_with ''f2'' ?w' = [r2]"
    by (cases "rows_with ''f2'' ?w'") simp_all
  from f1 r1 have g1: "map conversion_status (rows_with ''f1'' ?w') = [Some failed]"
    "map conversion_error (rows_with ''f1'' ?w')
     = [Some ''Erro ao baixar arquivo: Object not found'']"
    by simp_all
  from f2 r2 have g2: "map conversion_status (rows_with ''f2'' ?w') = [Some completed]"
    "map mei_url (rows_with ''f2'' ?w') = [Some ''u1/b.mei'']"
    "bucket ?w' ''u1/b.mei'' \<noteq> None"
    by simp_all
  from h sample_distinct sample_handler_write response ids' f3 g1 g2
  show ?thesis by (intro conjI)
qed

section \<open>Claims about the upload page\<close>

lemma count_matches_filter:
  "count_matches ps text n = n + length (filter (\<lambda>p. test p text) ps)"
  by (induction ps arbitrary: n) simp_all

lemma patterns_of_categories: "map fst pattern_categories = patterns"
  by (simp add: pattern_categories_def patterns_def)

lemma matched_categories_le:
  "length (matched_categories text) \<le> length (filter (\<lambda>p. test p text) patterns)"
proof -
  have "length (matched_categories text)
        \<le> length (filter (\<lambda>pc. test (fst pc) text) pattern_categories)"
    unfolding matched_categories_def
    using length_remdups_leq [of "map snd (filter (\<lambda>pc. test (fst pc) text) pattern_categories)"]
    by simp
  also have "\<dots> = length (filter (\<lambda>p. test p text) (map fst pattern_categories))"
    by (simp add: filter_map o_def)
  finally show ?thesis by (simp add: patterns_of_categories)
qed

lemma sample_rit: "isMusicSheetOrTab ''rit''"
  by code_simp

lemma sample_rit_categories: "matched_categories ''rit'' = [TempoDynamics]"
  by code_simp

text \<open>
  Claim C3 says that a text is accepted if and only if at least two distinct categories
  of patterns match.  It fails in one direction: the word \<open>rit\<close> matches the expression
  for tempo and the expression for dynamics, which are one category, and is accepted.
\<close>

theorem two_patterns_of_one_category:
  "isMusicSheetOrTab ''rit'' \<and> matched_categories ''rit'' = [TempoDynamics]
   \<and> \<not> spec_valid_notation ''rit''"
  using sample_rit sample_rit_categories by (simp add: spec_valid_notation_def)

text \<open>
  Claim C3 as amended: \<open>isMusicSheetOrTab\<close> accepts a text if and only if at least two of
  its eleven expressions match it; two distinct categories matching is enough for that,
  and so is two expressions of one category.
\<close>

theorem accepted_iff_two_patterns:
  "(isMusicSheetOrTab text \<longleftrightarrow> 2 \<le> length (filter (\<lambda>p. test p text) patterns))
   \<and> (spec_valid_notation text \<longrightarrow> isMusicSheetOrTab text)"
  using matched_categories_le [of "text"]
  by (simp add: isMusicSheetOrTab_def count_matches_filter spec_valid_notation_def)

lemma sample_two_categories:
  "matched_categories ''Allegro 4/4'' = [TimeSignature, TempoDynamics]"
  by code_simp

theorem accepted_iff_two_patterns_witness:
  "spec_valid_notation ''Allegro 4/4'' \<and> isMusicSheetOrTab ''Allegro 4/4''
   \<and> 2 \<le> length (filter (\<lambda>p. test p ''Allegro 4/4'') patterns)"
proof -
  have "spec_valid_notation ''Allegro 4/4''"
    by (simp add: spec_valid_notation_def sample_two_categories)
  with accepted_iff_two_patterns [of "''Allegro 4/4''"] show ?thesis by blast
qed

lemma recognition_error_without_message:
  "validateMusicFile (\<lambda>file. Inl (Other_value None)) big_png
   = \<lparr>isScore = False, vr_error = ''Erro ao analisar arquivo: undefined''\<rparr>"
  by (simp add: validateMusicFile_def big_png_def interpolate_def)

text \<open>
  Claim C5 says that intake accepts exactly the extensions pdf, xml, musicxml, mxl, svg,
  png, jpg and jpeg.  It fails: \<open>validateMusicFile\<close> looks at the declared MIME type, and a
  file \<open>score.xml\<close> of type \<open>text/xml\<close> is rejected whatever its text is; \<open>xml\<close> is not in
  \<open>validFileTypes\<close> either.
\<close>

theorem musicxml_file_is_rejected:
  "file_ext xml_file = ''xml''
   \<and> ''xml'' \<notin> set validFileTypes
   \<and> validateMusicFile reads_rit xml_file = \<lparr>isScore = False, vr_error = unsupported_type_message\<rparr>"
  by (simp add: validateMusicFile_def xml_file_def file_ext_def validFileTypes_def
      toLowerCase_def lower_char_def pop_def)

text \<open>
  Claim C5 as amended: \<open>validateMusicFile\<close> decides on the declared MIME type.  A file that
  is neither \<open>application/pdf\<close> nor \<open>image/...\<close> is rejected with the message for an
  unsupported type; a PDF or an image passes exactly when the text recognition succeeds
  and \<open>isMusicSheetOrTab\<close> accepts the text.
\<close>

theorem validation_decides_on_mime_type:
  "(f_type file \<noteq> ''application/pdf'' \<and> \<not> startsWith (f_type file) ''image/'' \<longrightarrow>
      validateMusicFile ocr file = \<lparr>isScore = False, vr_error = unsupported_type_message\<rparr>)
   \<and> (f_type file = ''application/pdf'' \<or> startsWith (f_type file) ''image/'' \<longrightarrow>
      (isScore (validateMusicFile ocr file)
       \<longleftrightarrow> (\<exists>t. ocr file = Inr t \<and> isMusicSheetOrTab t)))"
  by (auto simp: validateMusicFile_def Let_def split: sum.splits)

theorem validation_decides_on_mime_type_witness:
  "f_type xml_file \<noteq> ''application/pdf'' \<and> \<not> startsWith (f_type xml_file) ''image/''
   \<and> validateMusicFile reads_rit xml_file = \<lparr>isScore = False, vr_error = unsupported_type_message\<rparr>
   \<and> startsWith (f_type big_png) ''image/''
   \<and> reads_rit big_png = Inr ''rit'' \<and> isMusicSheetOrTab ''rit''
   \<and> isScore (validateMusicFile reads_rit big_png)"
proof -
  have x: "f_type xml_file \<noteq> ''application/pdf''" "\<not> startsWith (f_type xml_file) ''image/''"
    by (simp_all add: xml_file_def)
  have p: "startsWith (f_type big_png) ''image/''" "reads_rit big_png = Inr ''rit''"
    by (simp_all add: big_png_def reads_rit_def)
  from validation_decides_on_mime_type [of xml_file reads_rit] x
  have 1: "validateMusicFile reads_rit xml_file = \<lparr>isScore = False, vr_error = unsupported_type_message\<rparr>"
    by simp
  from validation_decides_on_mime_type [of big_png reads_rit] p sample_rit
  have 2: "isScore (validateMusicFile reads_rit big_png)" by blast
  from x p sample_rit 1 2 show ?thesis by simp
qed

text \<open>The equations that evaluate the page on a concrete input.\<close>

lemmas upload_defs = select_file_def validation_done_def osmd_effect_def size_effect_def
  handleFileChange_def handleSubmit_def validateMusicFile_def file_ext_def fileType_of_def
  MAX_FILE_SIZE_def big_png_def reads_rit_def filled_form_def ok_submit_def empty_backend_def
  toLowerCase_def lower_char_def pop_def or_else_def Let_def

lemma size_check_marks_invalid:
  "f_size file > MAX_FILE_SIZE \<Longrightarrow>
   isValidFile (size_effect (handleFileChange file s)) = Some False
   \<and> error_text (size_effect (handleFileChange file s))
       = ''O arquivo excede o tamanho m'' @ [CHR 0xE1] @ ''ximo permitido (5MB).''
   \<and> snd (handleSubmit env (size_effect (handleFileChange file s)) b) = b"
  by (simp add: size_effect_def handleFileChange_def handleSubmit_def)

text \<open>
  Claim C4 says that a file larger than 5 MiB is marked invalid and that nothing is
  uploaded or recorded for it.  The size check does mark the file invalid
  (\<open>size_check_marks_invalid\<close>), but the answer of the validation, which arrives later, writes
  \<open>isValidFile\<close> again: a PNG of 6 MiB in which the text recognition finds notation ends up
  valid, and submitting the form uploads it and inserts its row.
\<close>

theorem oversized_file_is_uploaded:
  "f_size big_png > MAX_FILE_SIZE
   \<and> isValidFile (osmd_effect (size_effect (handleFileChange big_png filled_form))) = Some False
   \<and> isValidFile (select_file reads_rit big_png filled_form) = Some True
   \<and> uploaded (snd (handleSubmit ok_submit (select_file reads_rit big_png filled_form) empty_backend))
       = [(''u1/1700000000000-scan.png'', big_png)]
   \<and> map ins_file_url (inserted (snd (handleSubmit ok_submit
         (select_file reads_rit big_png filled_form) empty_backend)))
       = [''u1/1700000000000-scan.png'']"
  using sample_rit by (simp add: upload_defs)

end
